theory Spec2Isabelle
  imports Main "HOL-Library.Sublist"
begin

unbundle bit_operations_syntax

section \<open>The FPC1020 platform driver (drivers/input/misc/fpc1020\_tee.c)\<close>

text \<open>
  The driver is a set of callbacks that the kernel invokes: the probe routine, the
  threaded interrupt handler, the framebuffer notifier callback, the work item it
  queues, and the sysfs attribute handlers. Each callback is embedded as a function on
  an explicit state. The state holds the driver's private structure, the module
  parameter, the kernel's task list as far as the driver touches it, and the ordered
  log of the kernel services the driver has called. Diagnostic output (dev\_err,
  dev\_info, dev\_dbg, printk) is not logged.
\<close>

subsection \<open>Constants of kernel headers\<close>

text \<open>
  The macros the file defines have their values here. Every other constant the driver
  uses comes from a kernel header that is not part of the driver file; those are
  collected in the record \<open>khdr\<close>, and every function that needs one takes the record
  as its first argument.
\<close>

definition FPC1020_RESET_LOW_US :: nat where "FPC1020_RESET_LOW_US = 1000"
definition FPC1020_RESET_HIGH1_US :: nat where "FPC1020_RESET_HIGH1_US = 100"
definition FPC1020_RESET_HIGH2_US :: nat where "FPC1020_RESET_HIGH2_US = 1250"
definition FPC_TTW_HOLD_TIME :: nat where "FPC_TTW_HOLD_TIME = 1000"
definition KEY_FINGERPRINT :: nat where "KEY_FINGERPRINT = 0x2ee"

record khdr =
  EINVAL :: int
  ENOMEM :: int
  MAX_ERRNO :: int
  BITS_PER_LONG :: nat
  PAGE_SIZE :: nat
  EV_KEY :: nat
  KEY_POWER :: nat
  KEY_F2 :: nat
  KEY_HOME :: nat
  MIN_NICE :: int
  FB_EARLY_EVENT_BLANK :: nat
  FB_BLANK_UNBLANK :: int
  FB_BLANK_POWERDOWN :: int
  IRQF_TRIGGER_RISING :: nat
  IRQF_ONESHOT :: nat
  msecs_to_jiffies :: "nat \<Rightarrow> nat"

text \<open>
  An example header with the values of Linux 4.4 (and a tick of 10 milliseconds), used
  where a property is evaluated on a concrete input.
\<close>

definition linux_hdr :: khdr where
  "linux_hdr = \<lparr> EINVAL = 22, ENOMEM = 12, MAX_ERRNO = 4095, BITS_PER_LONG = 64,
     PAGE_SIZE = 4096, EV_KEY = 1,
     KEY_POWER = 116, KEY_F2 = 60, KEY_HOME = 102, MIN_NICE = - 20,
     FB_EARLY_EVENT_BLANK = 0x10, FB_BLANK_UNBLANK = 0, FB_BLANK_POWERDOWN = 4,
     IRQF_TRIGGER_RISING = 1, IRQF_ONESHOT = 0x2000,
     msecs_to_jiffies = (\<lambda>m. (m + 9) div 10) \<rparr>"

text \<open>\<open>enum irqreturn\<close> of linux/irqreturn.h.\<close>

datatype irqreturn = IRQ_NONE | IRQ_HANDLED | IRQ_WAKE_THREAD

subsection \<open>Pointers and kernel services\<close>

text \<open>
  A pointer is modelled by its value read as a \<open>long\<close>. \<open>IS_ERR_VALUE\<close> of
  linux/err.h holds of the last \<open>MAX_ERRNO\<close> values of the address space, which are
  the values from \<open>-MAX_ERRNO\<close> to \<open>-1\<close>.
\<close>

type_synonym ptr = int

definition NULL :: ptr where "NULL = 0"

definition IS_ERR_VALUE :: "khdr \<Rightarrow> int \<Rightarrow> bool" where
  "IS_ERR_VALUE k x = (- MAX_ERRNO k \<le> x \<and> x < 0)"

definition IS_ERR_OR_NULL :: "khdr \<Rightarrow> ptr \<Rightarrow> bool" where
  "IS_ERR_OR_NULL k ptr = (ptr = NULL \<or> IS_ERR_VALUE k ptr)"

definition PTR_ERR :: "ptr \<Rightarrow> int" where
  "PTR_ERR ptr = ptr"

text \<open>
  The conversion of a \<open>size_t\<close> to the \<open>ssize_t\<close> a sysfs store handler returns: the
  same bits read as a signed \<open>long\<close>.
\<close>

definition ssize_t_of_size_t :: "khdr \<Rightarrow> nat \<Rightarrow> int" where
  "ssize_t_of_size_t k n =
     (let m = n mod 2 ^ BITS_PER_LONG k in
      if m < 2 ^ (BITS_PER_LONG k - 1) then int m else int m - 2 ^ BITS_PER_LONG k)"

text \<open>
  The kernel services a driver of this kind can call. The first group is what the file
  calls; the second group (GPIO output, GPIO debounce, SPI transfers, taking the mutex)
  is what the file never calls, listed so that its absence can be stated.
\<close>

datatype kcall =
    Devm_kzalloc
  | Dev_set_drvdata
  | Of_get_named_gpio string
  | Devm_gpio_request int string
  | Gpio_direction_input int
  | Gpio_get_value int
  | Devm_pinctrl_get
  | Pinctrl_lookup_state string
  | Pinctrl_select_state ptr
  | Input_allocate_device
  | Set_bit_evbit nat
  | Set_bit_keybit nat
  | Input_register_device
  | Input_free_device
  | Input_report_key nat int
  | Input_sync
  | Init_work
  | Queue_work
  | Fb_register_client
  | Mutex_init
  | Devm_request_threaded_irq int nat
  | Enable_irq_wake int
  | Wake_lock_init string
  | Wake_lock_timeout nat
  | Device_init_wakeup int
  | Sysfs_create_group "string list"
  | Sysfs_notify string
  | Push_component_info string string
  | Read_lock_tasklist
  | Read_unlock_tasklist
  | Set_user_nice nat int
  | Gpio_direction_output int int
  | Gpio_set_value int int
  | Gpio_set_debounce int nat
  | Spi_sync
  | Mutex_lock
  | Mutex_unlock

subsection \<open>The driver's data\<close>

text \<open>
  \<open>struct fpc1020_data\<close>. The embedded kernel objects (device, wake lock, mutex,
  notifier block, work item) have no field here: what the driver does with them is a
  logged call.
\<close>

record fpc1020_data =
  irq_gpio :: int
  rst_gpio :: int
  irq_num :: int
  prepared :: bool
  ts_pinctrl :: ptr
  gpio_state_active :: ptr
  gpio_state_suspend :: ptr
  EN_VDD_gpio :: int
  id0_gpio :: int
  id1_gpio :: int
  id2_gpio :: int
  input_dev :: ptr
  screen_state :: int
  sensor_version :: int

text \<open>What \<open>devm_kzalloc\<close> returns: every field zero.\<close>

definition kzalloc_data :: fpc1020_data where
  "kzalloc_data = \<lparr> irq_gpio = 0, rst_gpio = 0, irq_num = 0, prepared = False,
     ts_pinctrl = NULL, gpio_state_active = NULL, gpio_state_suspend = NULL,
     EN_VDD_gpio = 0, id0_gpio = 0, id1_gpio = 0, id2_gpio = 0, input_dev = NULL,
     screen_state = 0, sensor_version = 0 \<rparr>"

text \<open>
  A task of the kernel's task list: its pid, its name (the string held in the 16-byte
  array \<open>comm\<close>) and its nice value.
\<close>

record task =
  pid :: nat
  comm :: string
  nice :: int

record kstate =
  fpc1020 :: fpc1020_data
  ignor_home_for_ESD :: nat
  pm_work_pending :: bool
  tasklist :: "task list"
  calls :: "kcall list"

definition call :: "kcall \<Rightarrow> kstate \<Rightarrow> kstate" where
  "call c s = s\<lparr>calls := calls s @ [c]\<rparr>"

subsection \<open>String routines of the kernel library\<close>

definition NUL :: char where "NUL = CHR 0x00"

fun cstr_at :: "string \<Rightarrow> char" where
  "cstr_at [] = NUL"
| "cstr_at (c # cs) = c"

text \<open>
  \<open>strncmp\<close> of lib/string.c on C strings given by their bytes before the terminator:
  past the end of the list the byte read is the terminator.
\<close>

fun strncmp :: "string \<Rightarrow> string \<Rightarrow> nat \<Rightarrow> int" where
  "strncmp cs ct 0 = 0"
| "strncmp cs ct (Suc count) =
     (let c1 = cstr_at cs; c2 = cstr_at ct in
      if c1 \<noteq> c2 then (if (of_char c1 :: nat) < of_char c2 then - 1 else 1)
      else if c1 = NUL then 0
      else strncmp (tl cs) (tl ct) count)"

text \<open>\<open>memcmp\<close> on byte arrays; both arrays hold at least \<open>count\<close> bytes.\<close>

fun memcmp :: "string \<Rightarrow> string \<Rightarrow> nat \<Rightarrow> int" where
  "memcmp (a # as) (b # bs) (Suc count) =
     (if a \<noteq> b then int (of_char a) - int (of_char b) else memcmp as bs count)"
| "memcmp as bs count = 0"

text \<open>The array \<open>comm[16]\<close> of a task: the name, cut to 15 bytes, and zero bytes.\<close>

definition comm_buf :: "string \<Rightarrow> string" where
  "comm_buf name = take 15 name @ replicate (16 - length (take 15 name)) NUL"

subsection \<open>The interrupt handler\<close>

definition fpc1020_irq_handler :: "khdr \<Rightarrow> kstate \<Rightarrow> irqreturn \<times> kstate" where
  "fpc1020_irq_handler k s =
     (let s = call (Wake_lock_timeout (msecs_to_jiffies k FPC_TTW_HOLD_TIME)) s;
          s = call (Sysfs_notify ''irq'') s;
          s = (if screen_state (fpc1020 s) = 0 then
                 call Input_sync (call (Input_report_key KEY_FINGERPRINT 0)
                   (call Input_sync (call (Input_report_key KEY_FINGERPRINT 1) s)))
               else s)
      in (IRQ_HANDLED, s))"

subsection \<open>The sysfs attribute report\_home\<close>

definition report_home_set :: "khdr \<Rightarrow> string \<Rightarrow> nat \<Rightarrow> kstate \<Rightarrow> int \<times> kstate" where
  "report_home_set k buf count s =
     (if ignor_home_for_ESD s \<noteq> 0 then (- EINVAL k, s)
      else if strncmp buf ''down'' (length ''down'') = 0 then
        (ssize_t_of_size_t k count,
         call Input_sync (call (Input_report_key (KEY_HOME k) 1) s))
      else if strncmp buf ''up'' (length ''up'') = 0 then
        (ssize_t_of_size_t k count,
         call Input_sync (call (Input_report_key (KEY_HOME k) 0) s))
      else if strncmp buf ''timeout'' (length ''timeout'') = 0 then
        (ssize_t_of_size_t k count,
         call Input_sync (call (Input_report_key (KEY_F2 k) 0)
           (call Input_sync (call (Input_report_key (KEY_F2 k) 1) s))))
      else (- EINVAL k, s))"

subsection \<open>Formatted output\<close>

text \<open>
  \<open>scnprintf(buffer, size, "%i\n", v)\<close>: the decimal text of \<open>v\<close> and a newline, cut to
  one byte less than the size given; the result is the text written and its length.
\<close>

fun dec_digits :: "nat \<Rightarrow> string" where
  "dec_digits n =
     (if n < 10 then [char_of (48 + n)]
      else dec_digits (n div 10) @ [char_of (48 + n mod 10)])"

declare dec_digits.simps [simp del]

definition fmt_i :: "int \<Rightarrow> string" where
  "fmt_i v = (if v < 0 then CHR ''-'' # dec_digits (nat (- v)) else dec_digits (nat v))"

definition scnprintf_i :: "nat \<Rightarrow> int \<Rightarrow> string \<times> int" where
  "scnprintf_i sz v =
     (let out = take (sz - 1) (fmt_i v @ [CHR 0x0A]) in (out, int (length out)))"

subsection \<open>The platform\<close>

text \<open>
  What the kernel and the board answer to the driver's calls: whether the allocation
  succeeds, what the device tree holds, the return codes of the registration calls and
  the levels read from the GPIO lines. \<open>CONFIG_FB\<close> is the kernel configuration option
  the file tests. \<open>irq_core\<close> is the interrupt core of the kernel with the hardware of
  the interrupt line: given the flags a handler was requested with and the edges on the
  line, each with its time in jiffies, it gives the times at which it runs the handler.
\<close>

datatype edge = Rising | Falling

record platform =
  CONFIG_FB :: bool
  irq_core :: "nat \<Rightarrow> (nat \<times> edge) list \<Rightarrow> nat list"
  kzalloc_ok :: bool
  has_of_node :: bool
  of_get_named_gpio :: "string \<Rightarrow> int"
  devm_gpio_request :: "int \<Rightarrow> string \<Rightarrow> int"
  gpio_direction_input :: "int \<Rightarrow> int"
  gpio_is_valid :: "int \<Rightarrow> bool"
  gpio_get_value :: "int \<Rightarrow> int"
  gpio_to_irq :: "int \<Rightarrow> int"
  devm_pinctrl_get :: ptr
  pinctrl_lookup_state :: "string \<Rightarrow> ptr"
  pinctrl_select_state :: "ptr \<Rightarrow> int"
  input_allocate_device :: ptr
  input_register_device :: int
  fb_register_client :: int
  devm_request_threaded_irq :: int
  sysfs_create_group :: int

text \<open>
  Line 69 of the file defines \<open>ONEPLUS_EDIT\<close> unconditionally; the preprocessor
  conditionals on it are embedded as conditionals on this constant.
\<close>

definition ONEPLUS_EDIT :: bool where "ONEPLUS_EDIT = True"

subsection \<open>GPIO and pin control\<close>

text \<open>
  The parameter \<open>store\<close> stands for the pointer \<open>int *gpio\<close>: it writes the field of the
  driver's data the caller passed.
\<close>

definition fpc1020_request_named_gpio ::
  "platform \<Rightarrow> string \<Rightarrow> (int \<Rightarrow> fpc1020_data \<Rightarrow> fpc1020_data) \<Rightarrow> kstate \<Rightarrow> int \<times> kstate" where
  "fpc1020_request_named_gpio p label store s =
     (let s = call (Of_get_named_gpio label) s;
          rc = of_get_named_gpio p label in
      if rc < 0 then (rc, s\<lparr>fpc1020 := store rc (fpc1020 s)\<rparr>)
      else
        let s = s\<lparr>fpc1020 := store rc (fpc1020 s)\<rparr>;
            s = call (Devm_gpio_request rc label) s;
            rc' = devm_gpio_request p rc label in
        if rc' \<noteq> 0 then (rc', s) else (0, s))"

definition pinctrl_fail :: "int \<Rightarrow> kstate \<Rightarrow> int \<times> kstate" where
  "pinctrl_fail ret s =
     (ret, s\<lparr>fpc1020 := (fpc1020 s)\<lparr>ts_pinctrl := NULL, gpio_state_active := NULL,
                                      gpio_state_suspend := NULL\<rparr>\<rparr>)"

definition fpc1020_pinctrl_init :: "khdr \<Rightarrow> platform \<Rightarrow> kstate \<Rightarrow> int \<times> kstate" where
  "fpc1020_pinctrl_init k p s =
     (let s = call Devm_pinctrl_get s;
          s = s\<lparr>fpc1020 := (fpc1020 s)\<lparr>ts_pinctrl := devm_pinctrl_get p\<rparr>\<rparr> in
      if IS_ERR_OR_NULL k (ts_pinctrl (fpc1020 s)) then
        pinctrl_fail (PTR_ERR (ts_pinctrl (fpc1020 s))) s
      else
        let s = call (Pinctrl_lookup_state ''pmx_fp_active'') s;
            s = s\<lparr>fpc1020 := (fpc1020 s)\<lparr>gpio_state_active :=
                  pinctrl_lookup_state p ''pmx_fp_active''\<rparr>\<rparr> in
        if IS_ERR_OR_NULL k (gpio_state_active (fpc1020 s)) then
          pinctrl_fail (PTR_ERR (gpio_state_active (fpc1020 s))) s
        else
          let s = call (Pinctrl_lookup_state ''pmx_fp_suspend'') s;
              s = s\<lparr>fpc1020 := (fpc1020 s)\<lparr>gpio_state_suspend :=
                    pinctrl_lookup_state p ''pmx_fp_suspend''\<rparr>\<rparr> in
          if IS_ERR_OR_NULL k (gpio_state_suspend (fpc1020 s)) then
            pinctrl_fail (PTR_ERR (gpio_state_suspend (fpc1020 s))) s
          else (0, s))"

definition fpc1020_pinctrl_select ::
  "khdr \<Rightarrow> platform \<Rightarrow> bool \<Rightarrow> kstate \<Rightarrow> int \<times> kstate" where
  "fpc1020_pinctrl_select k p on s =
     (let pins_state = (if on then gpio_state_active (fpc1020 s)
                        else gpio_state_suspend (fpc1020 s)) in
      if \<not> IS_ERR_OR_NULL k pins_state then
        (pinctrl_select_state p pins_state, call (Pinctrl_select_state pins_state) s)
      else (0, s))"

subsection \<open>The remaining sysfs attributes\<close>

definition irq_get :: "khdr \<Rightarrow> platform \<Rightarrow> kstate \<Rightarrow> (string \<times> int) \<times> kstate" where
  "irq_get k p s =
     (let irq = gpio_get_value p (irq_gpio (fpc1020 s));
          s = call (Gpio_get_value (irq_gpio (fpc1020 s))) s
      in (scnprintf_i (PAGE_SIZE k) irq, s))"

definition irq_ack :: "khdr \<Rightarrow> string \<Rightarrow> nat \<Rightarrow> kstate \<Rightarrow> int \<times> kstate" where
  "irq_ack k buffer count s = (ssize_t_of_size_t k count, s)"

definition update_info_set :: "khdr \<Rightarrow> string \<Rightarrow> nat \<Rightarrow> kstate \<Rightarrow> int \<times> kstate" where
  "update_info_set k buf count s =
     (if strncmp buf ''n'' (length ''n'') = 0
      then (ssize_t_of_size_t k count, call (Push_component_info ''N/A'' ''N/A'') s)
      else (ssize_t_of_size_t k count, s))"

definition screen_state_get :: "khdr \<Rightarrow> kstate \<Rightarrow> (string \<times> int) \<times> kstate" where
  "screen_state_get k s = (scnprintf_i (PAGE_SIZE k) (screen_state (fpc1020 s)), s)"

definition sensor_version_get :: "khdr \<Rightarrow> kstate \<Rightarrow> (string \<times> int) \<times> kstate" where
  "sensor_version_get k s = (scnprintf_i (PAGE_SIZE k) (sensor_version (fpc1020 s)), s)"

definition attributes :: "string list" where
  "attributes = [''irq'', ''report_home'', ''update_info'', ''screen_state'',
                 ''sensor_version'']"

subsection \<open>The input device\<close>

definition fpc1020_input_init :: "khdr \<Rightarrow> platform \<Rightarrow> kstate \<Rightarrow> int \<times> kstate" where
  "fpc1020_input_init k p s =
     (let s = call Input_allocate_device s;
          s = s\<lparr>fpc1020 := (fpc1020 s)\<lparr>input_dev := input_allocate_device p\<rparr>\<rparr> in
      if input_dev (fpc1020 s) = NULL then (- ENOMEM k, s)
      else
        let s = call (Set_bit_evbit (EV_KEY k)) s;
            s = call (Set_bit_keybit (KEY_POWER k)) s;
            s = call (Set_bit_keybit (KEY_F2 k)) s;
            s = call (Set_bit_keybit (KEY_HOME k)) s;
            s = call (Set_bit_keybit KEY_FINGERPRINT) s;
            s = call Input_register_device s;
            error = input_register_device p in
        if error \<noteq> 0 then
          (error, (call Input_free_device s)\<lparr>fpc1020 :=
                     (fpc1020 s)\<lparr>input_dev := NULL\<rparr>\<rparr>)
        else (error, s))"

definition fpc1020_input_destroy :: "kstate \<Rightarrow> kstate" where
  "fpc1020_input_destroy s =
     (if input_dev (fpc1020 s) \<noteq> NULL then call Input_free_device s else s)"

subsection \<open>The display state and the priority of fingerprintd\<close>

text \<open>
  The loop of \<open>set_fingerprintd_nice\<close> over the task list: the first task whose array
  \<open>comm\<close> equals the 13 bytes of \<open>"fingerprintd"\<close> with its terminator gets the nice
  value, and the loop stops.
\<close>

definition fingerprintd_lit :: string where
  "fingerprintd_lit = ''fingerprintd'' @ [NUL]"

fun for_each_process :: "int \<Rightarrow> task list \<Rightarrow> kcall list \<times> task list" where
  "for_each_process n [] = ([], [])"
| "for_each_process n (t # ts) =
     (if memcmp (comm_buf (comm t)) fingerprintd_lit 13 = 0
      then ([Set_user_nice (pid t) n], t\<lparr>nice := n\<rparr> # ts)
      else (case for_each_process n ts of (cs, ts') \<Rightarrow> (cs, t # ts')))"

definition set_fingerprintd_nice :: "int \<Rightarrow> kstate \<Rightarrow> kstate" where
  "set_fingerprintd_nice n s =
     (let s = call Read_lock_tasklist s;
          r = for_each_process n (tasklist s);
          s = s\<lparr>tasklist := snd r, calls := calls s @ fst r\<rparr>
      in call Read_unlock_tasklist s)"

definition fpc1020_suspend_resume :: "khdr \<Rightarrow> kstate \<Rightarrow> kstate" where
  "fpc1020_suspend_resume k s =
     (let s = (if screen_state (fpc1020 s) \<noteq> 0 then set_fingerprintd_nice 0 s
               else set_fingerprintd_nice (MIN_NICE k) s)
      in call (Sysfs_notify ''screen_state'') s)"

definition queue_work :: "kstate \<Rightarrow> kstate" where
  "queue_work s = call Queue_work (s\<lparr>pm_work_pending := True\<rparr>)"

definition fb_notifier_callback :: "khdr \<Rightarrow> nat \<Rightarrow> int \<Rightarrow> kstate \<Rightarrow> int \<times> kstate" where
  "fb_notifier_callback k event blank s =
     (if event \<noteq> FB_EARLY_EVENT_BLANK k then (0, s)
      else if blank = FB_BLANK_UNBLANK k then
        (0, queue_work (s\<lparr>fpc1020 := (fpc1020 s)\<lparr>screen_state := 1\<rparr>\<rparr>))
      else if blank = FB_BLANK_POWERDOWN k then
        (0, queue_work (s\<lparr>fpc1020 := (fpc1020 s)\<lparr>screen_state := 0\<rparr>\<rparr>))
      else (0, s))"

subsection \<open>Probe\<close>

text \<open>
  Lines 437 to 453, compiled because \<open>ONEPLUS_EDIT\<close> is defined: the three
  identification lines are looked up and, where the number stored is a valid GPIO, made
  inputs. The return code of each request is overwritten by the next one and is not
  tested.
\<close>

definition probe_id_gpio ::
  "platform \<Rightarrow> string \<Rightarrow> (int \<Rightarrow> fpc1020_data \<Rightarrow> fpc1020_data) \<Rightarrow> (fpc1020_data \<Rightarrow> int)
     \<Rightarrow> kstate \<Rightarrow> int \<times> kstate" where
  "probe_id_gpio p label store field s =
     (case fpc1020_request_named_gpio p label store s of (rc, s) \<Rightarrow>
        (rc, if gpio_is_valid p (field (fpc1020 s))
             then call (Gpio_direction_input (field (fpc1020 s))) s else s))"

definition probe_id_gpios :: "platform \<Rightarrow> kstate \<Rightarrow> int \<times> kstate" where
  "probe_id_gpios p s =
     (case probe_id_gpio p ''fpc,gpio_id0'' (\<lambda>g d. d\<lparr>id0_gpio := g\<rparr>) id0_gpio s of (rc, s) \<Rightarrow>
      case probe_id_gpio p ''fpc,gpio_id1'' (\<lambda>g d. d\<lparr>id1_gpio := g\<rparr>) id1_gpio s of (rc, s) \<Rightarrow>
        probe_id_gpio p ''fpc,gpio_id2'' (\<lambda>g d. d\<lparr>id2_gpio := g\<rparr>) id2_gpio s)"

text \<open>Lines 521 to 547: the sensor version from the three identification lines.\<close>

definition set_sensor_version :: "int \<Rightarrow> kstate \<Rightarrow> kstate" where
  "set_sensor_version v s = s\<lparr>fpc1020 := (fpc1020 s)\<lparr>sensor_version := v\<rparr>\<rparr>"

definition probe_sensor_id :: "platform \<Rightarrow> kstate \<Rightarrow> kstate" where
  "probe_sensor_id p s =
     (let id0 = gpio_get_value p (id0_gpio (fpc1020 s));
          s = call (Gpio_get_value (id0_gpio (fpc1020 s))) s;
          id1 = gpio_get_value p (id1_gpio (fpc1020 s));
          s = call (Gpio_get_value (id1_gpio (fpc1020 s))) s;
          id2 = gpio_get_value p (id2_gpio (fpc1020 s));
          s = call (Gpio_get_value (id2_gpio (fpc1020 s))) s;
          s = set_sensor_version 0x02 s in
      if id0 \<noteq> 0 \<and> id1 \<noteq> 0 \<and> id2 \<noteq> 0 then
        set_sensor_version 0x01 (call (Push_component_info ''fpc1245'' ''FPC(OF)'') s)
      else if id0 \<noteq> 0 \<and> id1 = 0 \<and> id2 = 0 then
        set_sensor_version 0x01 (call (Push_component_info ''fpc1245'' ''FPC(Primax)'') s)
      else if id0 = 0 \<and> id1 = 0 \<and> id2 \<noteq> 0 then
        set_sensor_version 0x01 (call (Push_component_info ''fpc1245'' ''FPC(truly)'') s)
      else if id0 \<noteq> 0 \<and> id1 \<noteq> 0 \<and> id2 = 0 then
        call (Push_component_info ''fpc1263'' ''FPC(OF)'') s
      else if id0 = 0 \<and> id1 = 0 \<and> id2 = 0 then
        call (Push_component_info ''fpc1263'' ''FPC(Primax)'') s
      else if id0 = 0 \<and> id1 \<noteq> 0 \<and> id2 \<noteq> 0 then
        call (Push_component_info ''fpc1263'' ''FPC(truly)'') s
      else if id0 = 0 \<and> id1 \<noteq> 0 \<and> id2 = 0 then
        call (Push_component_info ''fpc1263'' ''FPC(f/p)'') s
      else if id0 \<noteq> 0 \<and> id1 = 0 \<and> id2 \<noteq> 0 then
        call (Push_component_info ''fpc1263'' ''FPC(Goodix)'') s
      else call (Push_component_info ''fpc'' ''FPC'') s)"

text \<open>Lines 464 to 551: what probe does once the pins are set up.\<close>

definition probe_devices :: "khdr \<Rightarrow> platform \<Rightarrow> kstate \<Rightarrow> int \<times> kstate" where
  "probe_devices k p s =
     (case fpc1020_input_init k p s of (rc, s) \<Rightarrow>
      if rc \<noteq> 0 then (rc, s)
      else
        let s = call Init_work s;
            s = (if CONFIG_FB p then
                   (call Fb_register_client s)\<lparr>fpc1020 :=
                      (fpc1020 s)\<lparr>screen_state := 1\<rparr>\<rparr>
                 else s);
            irqf = IRQF_TRIGGER_RISING k OR IRQF_ONESHOT k;
            s = call Mutex_init s;
            s = call (Devm_request_threaded_irq (gpio_to_irq p (irq_gpio (fpc1020 s))) irqf) s;
            rc = devm_request_threaded_irq p in
        if rc \<noteq> 0 then (rc, s)
        else
          let s = call (Enable_irq_wake (gpio_to_irq p (irq_gpio (fpc1020 s)))) s;
              s = call (Wake_lock_init ''fpc_ttw_wl'') s;
              s = call (Device_init_wakeup 1) s;
              s = call (Sysfs_create_group attributes) s;
              rc = sysfs_create_group p in
          if rc \<noteq> 0 then (rc, s)
          else (rc, probe_sensor_id p s))"

text \<open>Lines 436 to 462: the identification lines, or pin control without \<open>ONEPLUS_EDIT\<close>.\<close>

definition probe_pins :: "khdr \<Rightarrow> platform \<Rightarrow> kstate \<Rightarrow> int \<times> kstate" where
  "probe_pins k p s =
     (if ONEPLUS_EDIT then probe_devices k p (snd (probe_id_gpios p s))
      else
        case fpc1020_pinctrl_init k p s of (rc, s) \<Rightarrow>
        if rc \<noteq> 0 then (rc, s)
        else
          case fpc1020_pinctrl_select k p True s of (rc, s) \<Rightarrow>
          if rc \<noteq> 0 then (rc, s) else probe_devices k p s)"

definition fpc1020_probe :: "khdr \<Rightarrow> platform \<Rightarrow> kstate \<Rightarrow> int \<times> kstate" where
  "fpc1020_probe k p s =
     (let s = call Devm_kzalloc s in
      if \<not> kzalloc_ok p then (- ENOMEM k, s)
      else
        let s = call Dev_set_drvdata (s\<lparr>fpc1020 := kzalloc_data\<rparr>) in
        if \<not> has_of_node p then (- EINVAL k, s)
        else
          case fpc1020_request_named_gpio p ''fpc,irq-gpio'' (\<lambda>g d. d\<lparr>irq_gpio := g\<rparr>) s
          of (rc, s) \<Rightarrow>
          if rc \<noteq> 0 then (rc, s)
          else
            let rc = gpio_direction_input p (irq_gpio (fpc1020 s));
                s = call (Gpio_direction_input (irq_gpio (fpc1020 s))) s in
            if rc \<noteq> 0 then (rc, s) else probe_pins k p s)"

subsection \<open>The callbacks as operations of the module\<close>

text \<open>
  The entry points through which the kernel runs the driver, each with the input the
  kernel passes. \<open>Pm_work\<close> is the workqueue running the queued work item.
\<close>

datatype op =
    Probe
  | Irq
  | Fb_notify nat int
  | Pm_work
  | Irq_get
  | Irq_ack string nat
  | Report_home string nat
  | Update_info string nat
  | Screen_state_get
  | Sensor_version_get

fun run_op :: "khdr \<Rightarrow> platform \<Rightarrow> op \<Rightarrow> kstate \<Rightarrow> kstate" where
  "run_op k p Probe s = snd (fpc1020_probe k p s)"
| "run_op k p Irq s = snd (fpc1020_irq_handler k s)"
| "run_op k p (Fb_notify event blank) s = snd (fb_notifier_callback k event blank s)"
| "run_op k p Pm_work s = fpc1020_suspend_resume k (s\<lparr>pm_work_pending := False\<rparr>)"
| "run_op k p Irq_get s = snd (irq_get k p s)"
| "run_op k p (Irq_ack buf count) s = snd (irq_ack k buf count s)"
| "run_op k p (Report_home buf count) s = snd (report_home_set k buf count s)"
| "run_op k p (Update_info buf count) s = snd (update_info_set k buf count s)"
| "run_op k p Screen_state_get s = snd (screen_state_get k s)"
| "run_op k p Sensor_version_get s = snd (sensor_version_get k s)"

fun run_ops :: "khdr \<Rightarrow> platform \<Rightarrow> op list \<Rightarrow> kstate \<Rightarrow> kstate" where
  "run_ops k p [] s = s"
| "run_ops k p (x # xs) s = run_ops k p xs (run_op k p x s)"

text \<open>
  A board on which every call of probe succeeds, and a state before probe. Its interrupt
  core runs the handler once for every rising edge when the rising trigger (bit 0 of
  the flags in Linux) was requested: the edges of the line are further apart than one run
  of the handler takes, so the one-shot masking holds none of them back.
\<close>

definition board :: "int \<Rightarrow> int \<Rightarrow> int \<Rightarrow> platform" where
  "board v0 v1 v2 = \<lparr> CONFIG_FB = True,
     irq_core = (\<lambda>flags es. if odd flags then map fst (filter (\<lambda>e. snd e = Rising) es)
                              else []),
     kzalloc_ok = True, has_of_node = True,
     of_get_named_gpio = (\<lambda>l. if l = ''fpc,irq-gpio'' then 121
                              else if l = ''fpc,gpio_id0'' then 39
                              else if l = ''fpc,gpio_id1'' then 41
                              else if l = ''fpc,gpio_id2'' then 63 else - 2),
     devm_gpio_request = (\<lambda>g l. 0),
     gpio_direction_input = (\<lambda>g. 0),
     gpio_is_valid = (\<lambda>g. 0 \<le> g \<and> g < 1024),
     gpio_get_value = (\<lambda>g. if g = 39 then v0 else if g = 41 then v1
                             else if g = 63 then v2 else 0),
     gpio_to_irq = (\<lambda>g. g + 300),
     devm_pinctrl_get = 0x1000,
     pinctrl_lookup_state = (\<lambda>l. 0x2000),
     pinctrl_select_state = (\<lambda>st. 0),
     input_allocate_device = 0x3000,
     input_register_device = 0,
     fb_register_client = 0,
     devm_request_threaded_irq = 0,
     sysfs_create_group = 0 \<rparr>"

definition boot :: kstate where
  "boot = \<lparr> fpc1020 = kzalloc_data, ignor_home_for_ESD = 0, pm_work_pending = False,
     tasklist = [\<lparr> pid = 1, comm = ''init'', nice = 0 \<rparr>,
                 \<lparr> pid = 540, comm = ''fingerprintd'', nice = 0 \<rparr>,
                 \<lparr> pid = 541, comm = ''fingerprintd'', nice = 0 \<rparr>],
     calls = [] \<rparr>"

subsection \<open>Notions used to state the properties\<close>

text \<open>
  The three identification levels, read as C truth values, form one of the patterns the
  comment in probe lists for the fpc1245: (1,1,1), (1,0,0) and (0,0,1).
\<close>

definition fpc1245_pattern :: "int \<Rightarrow> int \<Rightarrow> int \<Rightarrow> bool" where
  "fpc1245_pattern id0 id1 id2 =
     ((id0 \<noteq> 0, id1 \<noteq> 0, id2 \<noteq> 0) \<in>
        {(True, True, True), (True, False, False), (False, False, True)})"

text \<open>The levels of the three identification lines the driver's data names.\<close>

definition ids_read :: "platform \<Rightarrow> kstate \<Rightarrow> int \<times> int \<times> int" where
  "ids_read p s = (gpio_get_value p (id0_gpio (fpc1020 s)),
                   gpio_get_value p (id1_gpio (fpc1020 s)),
                   gpio_get_value p (id2_gpio (fpc1020 s)))"

text \<open>The test in the loop of \<open>set_fingerprintd_nice\<close>.\<close>

definition named_fingerprintd :: "task \<Rightarrow> bool" where
  "named_fingerprintd t = (memcmp (comm_buf (comm t)) fingerprintd_lit 13 = 0)"

text \<open>The calls a later state has added to the log of an earlier one.\<close>

definition new_calls :: "kstate \<Rightarrow> kstate \<Rightarrow> kcall list" where
  "new_calls s s' = drop (length (calls s)) (calls s')"

text \<open>
  The device-tree properties probe looks up, and the calls the module makes at all:
  GPIO lookups and requests for those properties only, and none of pin control, GPIO
  output, GPIO debounce, SPI or the mutex.
\<close>

definition probe_gpio_labels :: "string list" where
  "probe_gpio_labels = [''fpc,irq-gpio'', ''fpc,gpio_id0'', ''fpc,gpio_id1'', ''fpc,gpio_id2'']"

fun driver_call :: "kcall \<Rightarrow> bool" where
  "driver_call (Of_get_named_gpio l) = (l \<in> set probe_gpio_labels)"
| "driver_call (Devm_gpio_request g l) = (l \<in> set probe_gpio_labels)"
| "driver_call Devm_pinctrl_get = False"
| "driver_call (Pinctrl_lookup_state l) = False"
| "driver_call (Pinctrl_select_state st) = False"
| "driver_call (Gpio_direction_output g v) = False"
| "driver_call (Gpio_set_value g v) = False"
| "driver_call (Gpio_set_debounce g d) = False"
| "driver_call Spi_sync = False"
| "driver_call Mutex_lock = False"
| "driver_call Mutex_unlock = False"
| "driver_call c = True"

definition extends :: "kstate \<Rightarrow> kstate \<Rightarrow> bool" where
  "extends s s' = (prefix (calls s) (calls s') \<and> list_all driver_call (new_calls s s'))"

text \<open>
  Calls that would drive a GPIO line, the device-tree property a GPIO call names, and
  what it means for a call to leave the reset line alone: it drives no line and names
  no property other than those of the interrupt and identification lines.
\<close>

fun gpio_output_call :: "kcall \<Rightarrow> bool" where
  "gpio_output_call (Gpio_direction_output g v) = True"
| "gpio_output_call (Gpio_set_value g v) = True"
| "gpio_output_call c = False"

fun gpio_label :: "kcall \<Rightarrow> string option" where
  "gpio_label (Of_get_named_gpio l) = Some l"
| "gpio_label (Devm_gpio_request g l) = Some l"
| "gpio_label c = None"

definition reset_line_untouched :: "kcall \<Rightarrow> bool" where
  "reset_line_untouched c =
     (\<not> gpio_output_call c \<and>
      (case gpio_label c of None \<Rightarrow> True | Some l \<Rightarrow> l \<in> set probe_gpio_labels))"

text \<open>Calls of the pin-control subsystem.\<close>

fun pinctrl_call :: "kcall \<Rightarrow> bool" where
  "pinctrl_call Devm_pinctrl_get = True"
| "pinctrl_call (Pinctrl_lookup_state l) = True"
| "pinctrl_call (Pinctrl_select_state st) = True"
| "pinctrl_call c = False"

text \<open>
  Calls by which a driver would talk to the sensor: an SPI transfer, or a level driven on
  a GPIO line.
\<close>

fun data_plane_call :: "kcall \<Rightarrow> bool" where
  "data_plane_call Spi_sync = True"
| "data_plane_call (Gpio_direction_output g v) = True"
| "data_plane_call (Gpio_set_value g v) = True"
| "data_plane_call c = False"

text \<open>The fields of the driver's data that no function of the file assigns.\<close>

definition unused_fields :: "fpc1020_data \<Rightarrow> int \<times> int \<times> bool \<times> ptr \<times> ptr \<times> ptr \<times> int" where
  "unused_fields d = (rst_gpio d, irq_num d, prepared d, ts_pinctrl d, gpio_state_active d,
                      gpio_state_suspend d, EN_VDD_gpio d)"

text \<open>
  The task list after the loop of \<open>set_fingerprintd_nice\<close>, told without the loop: the
  tasks before the first one that passes the test, that task with the new nice value, and
  the tasks after it.
\<close>

definition renice_first :: "int \<Rightarrow> task list \<Rightarrow> task list" where
  "renice_first n ts =
     takeWhile (\<lambda>t. \<not> named_fingerprintd t) ts @
     (case dropWhile (\<lambda>t. \<not> named_fingerprintd t) ts of
        [] \<Rightarrow> []
      | d # post \<Rightarrow> d\<lparr>nice := n\<rparr> # post)"

text \<open>
  A burst of edges on the interrupt line: the kernel runs the handler at the times its
  interrupt core gives for the flags of line 480. The handler is passed no time and the
  file reads no clock, so the times do not reach it.
\<close>

definition irq_burst :: "khdr \<Rightarrow> platform \<Rightarrow> (nat \<times> edge) list \<Rightarrow> kstate \<Rightarrow> kstate" where
  "irq_burst k p es s =
     run_ops k p
       (map (\<lambda>t. Irq) (irq_core p (IRQF_TRIGGER_RISING k OR IRQF_ONESHOT k) es)) s"

text \<open>The edges of a burst lie within a window of \<open>w\<close> jiffies.\<close>

definition burst_within :: "nat \<Rightarrow> (nat \<times> edge) list \<Rightarrow> bool" where
  "burst_within w es = (es \<noteq> [] \<and> list_all (\<lambda>e. list_all (\<lambda>e'. fst e < fst e' + w) es) es)"

text \<open>The notifications of the attribute \<open>irq\<close> a later state has added.\<close>

definition irq_events :: "kstate \<Rightarrow> kstate \<Rightarrow> nat" where
  "irq_events s s' = count_list (new_calls s s') (Sysfs_notify ''irq'')"

text \<open>The call by which a driver asks the GPIO hardware to debounce a line.\<close>

fun debounce_call :: "kcall \<Rightarrow> bool" where
  "debounce_call (Gpio_set_debounce g d) = True"
| "debounce_call c = False"

text \<open>The device-tree properties of the three identification lines.\<close>

definition probe_id_labels :: "string list" where
  "probe_id_labels = [''fpc,gpio_id0'', ''fpc,gpio_id1'', ''fpc,gpio_id2'']"

section \<open>Properties\<close>

subsection \<open>Basic facts about the call log and the string routines\<close>

lemma calls_call [simp]: "calls (call c s) = calls s @ [c]"
  by (simp add: call_def)

lemma fpc1020_call [simp]: "fpc1020 (call c s) = fpc1020 s"
  by (simp add: call_def)

lemma tasklist_call [simp]: "tasklist (call c s) = tasklist s"
  by (simp add: call_def)

lemma pm_work_pending_call [simp]: "pm_work_pending (call c s) = pm_work_pending s"
  by (simp add: call_def)

lemma strncmp_prefix:
  "NUL \<notin> set t \<Longrightarrow> (strncmp s t (length t) = 0) = prefix t s"
proof (induction t arbitrary: s)
  case Nil
  show ?case by simp
next
  case (Cons c t)
  show ?case
  proof (cases s)
    case Nil
    with Cons.prems show ?thesis by auto
  next
    case (Cons d s')
    with Cons.prems Cons.IH [of s'] show ?thesis by (auto simp: Let_def)
  qed
qed

lemma strncmp_down: "(strncmp buf ''down'' (length ''down'') = 0) = prefix ''down'' buf"
  by (rule strncmp_prefix) (simp add: NUL_def)

lemma strncmp_up: "(strncmp buf ''up'' (length ''up'') = 0) = prefix ''up'' buf"
  by (rule strncmp_prefix) (simp add: NUL_def)

lemma strncmp_timeout:
  "(strncmp buf ''timeout'' (length ''timeout'') = 0) = prefix ''timeout'' buf"
  by (rule strncmp_prefix) (simp add: NUL_def)

subsection \<open>Probe on the example board\<close>

lemma board_simps:
  "CONFIG_FB (board a b c)" "kzalloc_ok (board a b c)" "has_of_node (board a b c)"
  "irq_core (board a b c) f es =
     (if odd f then map fst (filter (\<lambda>e. snd e = Rising) es) else [])"
  "of_get_named_gpio (board a b c) ''fpc,irq-gpio'' = 121"
  "of_get_named_gpio (board a b c) ''fpc,gpio_id0'' = 39"
  "of_get_named_gpio (board a b c) ''fpc,gpio_id1'' = 41"
  "of_get_named_gpio (board a b c) ''fpc,gpio_id2'' = 63"
  "devm_gpio_request (board a b c) g l = 0"
  "gpio_direction_input (board a b c) g = 0"
  "gpio_is_valid (board a b c) g = (0 \<le> g \<and> g < 1024)"
  "gpio_get_value (board a b c) 39 = a"
  "gpio_get_value (board a b c) 41 = b"
  "gpio_get_value (board a b c) 63 = c"
  "gpio_to_irq (board a b c) g = g + 300"
  "input_allocate_device (board a b c) = 0x3000"
  "input_register_device (board a b c) = 0"
  "devm_request_threaded_irq (board a b c) = 0"
  "sysfs_create_group (board a b c) = 0"
  by (simp_all add: board_def)

lemmas probe_defs = fpc1020_probe_def fpc1020_request_named_gpio_def probe_pins_def
  ONEPLUS_EDIT_def probe_id_gpios_def probe_id_gpio_def probe_devices_def
  fpc1020_input_init_def probe_sensor_id_def set_sensor_version_def Let_def

lemma probe_board_calls:
  "calls (snd (fpc1020_probe k (board 1 0 0) s)) = calls s @
     [Devm_kzalloc, Dev_set_drvdata, Of_get_named_gpio ''fpc,irq-gpio'',
      Devm_gpio_request 121 ''fpc,irq-gpio'', Gpio_direction_input 121,
      Of_get_named_gpio ''fpc,gpio_id0'', Devm_gpio_request 39 ''fpc,gpio_id0'',
      Gpio_direction_input 39,
      Of_get_named_gpio ''fpc,gpio_id1'', Devm_gpio_request 41 ''fpc,gpio_id1'',
      Gpio_direction_input 41,
      Of_get_named_gpio ''fpc,gpio_id2'', Devm_gpio_request 63 ''fpc,gpio_id2'',
      Gpio_direction_input 63,
      Input_allocate_device, Set_bit_evbit (EV_KEY k), Set_bit_keybit (KEY_POWER k),
      Set_bit_keybit (KEY_F2 k), Set_bit_keybit (KEY_HOME k), Set_bit_keybit KEY_FINGERPRINT,
      Input_register_device, Init_work, Fb_register_client, Mutex_init,
      Devm_request_threaded_irq 421 (IRQF_TRIGGER_RISING k OR IRQF_ONESHOT k),
      Enable_irq_wake 421, Wake_lock_init ''fpc_ttw_wl'', Device_init_wakeup 1,
      Sysfs_create_group attributes,
      Gpio_get_value 39, Gpio_get_value 41, Gpio_get_value 63,
      Push_component_info ''fpc1245'' ''FPC(Primax)'']"
  by (simp add: probe_defs board_simps kzalloc_data_def NULL_def)

lemma probe_board_data:
  "fpc1020 (snd (fpc1020_probe k (board 1 0 0) s)) =
     kzalloc_data\<lparr>irq_gpio := 121, id0_gpio := 39, id1_gpio := 41, id2_gpio := 63,
       input_dev := 0x3000, screen_state := 1, sensor_version := 1\<rparr>"
  by (simp add: probe_defs board_simps kzalloc_data_def NULL_def)

lemma probe_board_ok: "fst (fpc1020_probe k (board 1 0 0) s) = 0"
  by (simp add: probe_defs board_simps kzalloc_data_def NULL_def)

subsection \<open>The interrupt handler\<close>

text \<open>
  C1. Whatever the state of the driver when an interrupt is delivered, the handler
  first takes the wake lock with a timeout of \<open>FPC_TTW_HOLD_TIME\<close>, which is 1000
  milliseconds, converted to jiffies, then notifies the sysfs attribute \<open>irq\<close>, and
  it returns \<open>IRQ_HANDLED\<close>.
\<close>

theorem irq_handler_wake_lock_notify_handled:
  "FPC_TTW_HOLD_TIME = 1000 \<and>
   fst (fpc1020_irq_handler k s) = IRQ_HANDLED \<and>
   (\<exists>rest. calls (snd (fpc1020_irq_handler k s)) =
      calls s @ [Wake_lock_timeout (msecs_to_jiffies k FPC_TTW_HOLD_TIME),
                 Sysfs_notify ''irq''] @ rest)"
  by (simp add: fpc1020_irq_handler_def FPC_TTW_HOLD_TIME_def Let_def)

text \<open>
  C8. The calls of the handler are the wake lock and the notification, followed by a
  press and a release of \<open>KEY_FINGERPRINT\<close>, each with its sync, exactly when
  \<open>screen_state\<close> is 0; when the screen is on nothing follows the notification.
\<close>

theorem irq_handler_key_iff_screen_off:
  "calls (snd (fpc1020_irq_handler k s)) =
     calls s @ [Wake_lock_timeout (msecs_to_jiffies k FPC_TTW_HOLD_TIME), Sysfs_notify ''irq''] @
       (if screen_state (fpc1020 s) = 0
        then [Input_report_key KEY_FINGERPRINT 1, Input_sync,
              Input_report_key KEY_FINGERPRINT 0, Input_sync]
        else [])"
  by (simp add: fpc1020_irq_handler_def Let_def)

theorem irq_handler_key_iff_screen_off_witness:
  "calls (snd (fpc1020_irq_handler linux_hdr boot)) =
     [Wake_lock_timeout 100, Sysfs_notify ''irq'', Input_report_key 0x2ee 1, Input_sync,
      Input_report_key 0x2ee 0, Input_sync] \<and>
   calls (snd (fpc1020_irq_handler linux_hdr
     (boot\<lparr>fpc1020 := kzalloc_data\<lparr>screen_state := 1\<rparr>\<rparr>))) =
     [Wake_lock_timeout 100, Sysfs_notify ''irq'']"
  using irq_handler_key_iff_screen_off [of linux_hdr boot]
    irq_handler_key_iff_screen_off [of linux_hdr
      "boot\<lparr>fpc1020 := kzalloc_data\<lparr>screen_state := 1\<rparr>\<rparr>"]
  by (simp add: boot_def kzalloc_data_def linux_hdr_def FPC_TTW_HOLD_TIME_def
      KEY_FINGERPRINT_def)

subsection \<open>The attribute report\_home\<close>

lemma ssize_t_of_size_t_small:
  assumes "n < 2 ^ (BITS_PER_LONG k - 1)"
  shows "ssize_t_of_size_t k n = int n"
proof -
  have "(2::nat) ^ (BITS_PER_LONG k - 1) \<le> 2 ^ BITS_PER_LONG k"
    by (rule power_increasing) simp_all
  with assms have "n < 2 ^ BITS_PER_LONG k" by linarith
  then have "n mod 2 ^ BITS_PER_LONG k = n" by simp
  with assms show ?thesis by (simp add: ssize_t_of_size_t_def)
qed

text \<open>
  C9. A write to \<open>report_home\<close> returns \<open>-EINVAL\<close> and leaves the state, and so the
  call log, as it was when \<open>ignor_home_for_ESD\<close> is not zero or the buffer begins with
  none of \<open>down\<close>, \<open>up\<close> and \<open>timeout\<close>. Otherwise it adds to the log the press of
  \<open>KEY_HOME\<close> for \<open>down\<close>, its release for \<open>up\<close>, and the press and release of
  \<open>KEY_F2\<close> for \<open>timeout\<close>, each followed by its sync, and returns the count as an
  \<open>ssize_t\<close>; that is the full count whenever the count is below half the range of a
  \<open>long\<close>, as every count that sysfs passes (at most a page) is.
\<close>

theorem report_home_set_spec:
  "report_home_set k buf count s =
     (if ignor_home_for_ESD s \<noteq> 0 \<or>
         \<not> (prefix ''down'' buf \<or> prefix ''up'' buf \<or> prefix ''timeout'' buf)
      then (- EINVAL k, s)
      else (ssize_t_of_size_t k count,
            s\<lparr>calls := calls s @
               (if prefix ''down'' buf then [Input_report_key (KEY_HOME k) 1, Input_sync]
                else if prefix ''up'' buf then [Input_report_key (KEY_HOME k) 0, Input_sync]
                else [Input_report_key (KEY_F2 k) 1, Input_sync,
                      Input_report_key (KEY_F2 k) 0, Input_sync])\<rparr>)) \<and>
   (count < 2 ^ (BITS_PER_LONG k - 1) \<longrightarrow> ssize_t_of_size_t k count = int count)"
proof
  show "report_home_set k buf count s =
     (if ignor_home_for_ESD s \<noteq> 0 \<or>
         \<not> (prefix ''down'' buf \<or> prefix ''up'' buf \<or> prefix ''timeout'' buf)
      then (- EINVAL k, s)
      else (ssize_t_of_size_t k count,
            s\<lparr>calls := calls s @
               (if prefix ''down'' buf then [Input_report_key (KEY_HOME k) 1, Input_sync]
                else if prefix ''up'' buf then [Input_report_key (KEY_HOME k) 0, Input_sync]
                else [Input_report_key (KEY_F2 k) 1, Input_sync,
                      Input_report_key (KEY_F2 k) 0, Input_sync])\<rparr>))"
    unfolding report_home_set_def strncmp_down strncmp_up strncmp_timeout
    by (simp add: call_def)
  show "count < 2 ^ (BITS_PER_LONG k - 1) \<longrightarrow> ssize_t_of_size_t k count = int count"
    by (simp add: ssize_t_of_size_t_small)
qed

theorem report_home_set_spec_witness:
  "report_home_set linux_hdr ''timeout'' 7 boot =
     (7, boot\<lparr>calls := [Input_report_key 60 1, Input_sync, Input_report_key 60 0,
                         Input_sync]\<rparr>) \<and>
   report_home_set linux_hdr ''upside'' 4096 boot =
     (4096, boot\<lparr>calls := [Input_report_key 102 0, Input_sync]\<rparr>) \<and>
   report_home_set linux_hdr ''home'' 4 boot = (- 22, boot) \<and>
   report_home_set linux_hdr ''down'' 4 (boot\<lparr>ignor_home_for_ESD := 1\<rparr>) =
     (- 22, boot\<lparr>ignor_home_for_ESD := 1\<rparr>)"
proof -
  have b: "BITS_PER_LONG linux_hdr = 64" by (simp add: linux_hdr_def)
  have c7: "(7::nat) < 2 ^ (BITS_PER_LONG linux_hdr - 1)" unfolding b by simp
  have c4096: "(4096::nat) < 2 ^ (BITS_PER_LONG linux_hdr - 1)" unfolding b by simp
  have i: "ignor_home_for_ESD boot = 0" by (simp add: boot_def)
  from report_home_set_spec [of linux_hdr "''timeout''" 7 boot] c7
    report_home_set_spec [of linux_hdr "''upside''" 4096 boot] c4096
    report_home_set_spec [of linux_hdr "''home''" 4 boot]
    report_home_set_spec [of linux_hdr "''down''" 4 "boot\<lparr>ignor_home_for_ESD := 1\<rparr>"]
  have "report_home_set linux_hdr ''timeout'' 7 boot =
          (7, boot\<lparr>calls := calls boot @ [Input_report_key (KEY_F2 linux_hdr) 1, Input_sync,
                 Input_report_key (KEY_F2 linux_hdr) 0, Input_sync]\<rparr>)"
    and "report_home_set linux_hdr ''upside'' 4096 boot =
          (4096, boot\<lparr>calls := calls boot @ [Input_report_key (KEY_HOME linux_hdr) 0,
                 Input_sync]\<rparr>)"
    and "report_home_set linux_hdr ''home'' 4 boot = (- EINVAL linux_hdr, boot)"
    and "report_home_set linux_hdr ''down'' 4 (boot\<lparr>ignor_home_for_ESD := 1\<rparr>) =
          (- EINVAL linux_hdr, boot\<lparr>ignor_home_for_ESD := 1\<rparr>)"
    by (simp_all add: i)
  then show ?thesis
    by (simp add: boot_def linux_hdr_def)
qed

subsection \<open>The display state and the priority of fingerprintd\<close>

lemma memcmp_take:
  "n \<le> length a \<Longrightarrow> n \<le> length b \<Longrightarrow> (memcmp a b n = 0) = (take n a = take n b)"
proof (induction a b n rule: memcmp.induct)
  case (1 a as b bs count)
  then show ?case by auto
qed auto

lemma length_comm_buf: "length (comm_buf name) = 16"
  by (simp add: comm_buf_def)

lemma takeWhile_name_pad:
  assumes "NUL \<notin> set name" and "0 < m"
  shows "takeWhile (\<lambda>c. c \<noteq> NUL) (name @ replicate m NUL) = name"
proof -
  have "takeWhile (\<lambda>c. c \<noteq> NUL) (name @ replicate m NUL) =
        name @ takeWhile (\<lambda>c. c \<noteq> NUL) (replicate m NUL)"
    using assms(1) by (intro takeWhile_append2) auto
  also have "takeWhile (\<lambda>c. c \<noteq> NUL) (replicate m NUL) = []"
    using assms(2) by (cases m) simp_all
  finally show ?thesis by simp
qed

lemma named_fingerprintd_iff:
  assumes "NUL \<notin> set (comm t)"
  shows "named_fingerprintd t = (comm t = ''fingerprintd'')"
proof -
  let ?name = "comm t"
  have m: "named_fingerprintd t = (take 13 (comm_buf ?name) = fingerprintd_lit)"
    unfolding named_fingerprintd_def
    by (subst memcmp_take) (simp_all add: length_comm_buf fingerprintd_lit_def)
  show ?thesis
  proof
    assume "named_fingerprintd t"
    with m have e: "take 13 (comm_buf ?name) = ''fingerprintd'' @ [NUL]"
      by (simp add: fingerprintd_lit_def)
    show "?name = ''fingerprintd''"
    proof (cases "length ?name < 13")
      case True
      then have "take 13 (comm_buf ?name) = ?name @ replicate (13 - length ?name) NUL"
        by (simp add: comm_buf_def min_def)
      with e have "takeWhile (\<lambda>c. c \<noteq> NUL) (?name @ replicate (13 - length ?name) NUL) =
                   takeWhile (\<lambda>c. c \<noteq> NUL) (''fingerprintd'' @ [NUL])"
        by simp
      moreover have "takeWhile (\<lambda>c. c \<noteq> NUL) (?name @ replicate (13 - length ?name) NUL) = ?name"
        using assms True by (intro takeWhile_name_pad) simp_all
      moreover have "takeWhile (\<lambda>c. c \<noteq> NUL) (''fingerprintd'' @ [NUL]) = ''fingerprintd''"
        by (simp add: NUL_def)
      ultimately show ?thesis by simp
    next
      case False
      then have "take 13 (comm_buf ?name) = take 13 ?name"
        by (simp add: comm_buf_def min_def)
      with e have "take 13 ?name = ''fingerprintd'' @ [NUL]" by simp
      then have "NUL \<in> set (take 13 ?name)" by simp
      then have "NUL \<in> set ?name" by (rule in_set_takeD)
      with assms show ?thesis by simp
    qed
  next
    assume "?name = ''fingerprintd''"
    then show "named_fingerprintd t"
      by (simp add: m comm_buf_def fingerprintd_lit_def)
  qed
qed

lemma for_each_process_eq:
  "for_each_process n ts =
     ((case find named_fingerprintd ts of None \<Rightarrow> []
       | Some d \<Rightarrow> [Set_user_nice (pid d) n]),
      renice_first n ts)"
  by (induction ts) (simp_all add: named_fingerprintd_def renice_first_def)

lemma set_fingerprintd_nice_eq:
  "set_fingerprintd_nice n s =
     s\<lparr>tasklist := renice_first n (tasklist s),
       calls := calls s @ [Read_lock_tasklist] @
         (case find named_fingerprintd (tasklist s) of None \<Rightarrow> []
          | Some d \<Rightarrow> [Set_user_nice (pid d) n]) @
         [Read_unlock_tasklist]\<rparr>"
  by (simp add: set_fingerprintd_nice_def Let_def call_def for_each_process_eq)

lemma find_first:
  "\<forall>t\<in>set pre. \<not> P t \<Longrightarrow> P d \<Longrightarrow> find P (pre @ d # post) = Some d"
  by (induction pre) simp_all

lemma renice_first_first:
  "\<forall>t\<in>set pre. \<not> named_fingerprintd t \<Longrightarrow> named_fingerprintd d \<Longrightarrow>
     renice_first n (pre @ d # post) = pre @ d\<lparr>nice := n\<rparr> # post"
  by (induction pre) (simp_all add: renice_first_def)

lemma renice_first_none:
  "find named_fingerprintd ts = None \<Longrightarrow> renice_first n ts = ts"
  by (induction ts) (simp_all add: renice_first_def split: if_splits)

lemma named_by_comm:
  assumes "comm d = ''fingerprintd''"
    and "\<forall>t\<in>set pre. NUL \<notin> set (comm t) \<and> comm t \<noteq> ''fingerprintd''"
  shows "named_fingerprintd d" and "\<forall>t\<in>set pre. \<not> named_fingerprintd t"
proof -
  have "NUL \<notin> set (comm d)" using assms(1) by (simp add: NUL_def)
  then show "named_fingerprintd d" using assms(1) by (simp add: named_fingerprintd_iff)
  show "\<forall>t\<in>set pre. \<not> named_fingerprintd t"
  proof
    fix t assume "t \<in> set pre"
    with assms(2) have "NUL \<notin> set (comm t)" and "comm t \<noteq> ''fingerprintd''" by auto
    then show "\<not> named_fingerprintd t" by (simp add: named_fingerprintd_iff)
  qed
qed

text \<open>
  C2. The framebuffer core announces a blank transition to the notifier chain with the
  event \<open>FB_EARLY_EVENT_BLANK\<close>. At that notification with \<open>FB_BLANK_POWERDOWN\<close> the
  callback sets \<open>screen_state\<close> to 0 and queues the work item, and the work item gives
  the first task that passes the test for fingerprintd the nice value \<open>MIN_NICE\<close>; with
  \<open>FB_BLANK_UNBLANK\<close> it sets \<open>screen_state\<close> to 1, queues the work item, and the
  work item gives that task the nice value 0. In both cases, and whether or not there is
  such a task, the work item ends with the notification of the sysfs attribute
  \<open>screen_state\<close>. The task that passes the test is the first one named fingerprintd
  (among names without a zero byte); when no task passes it the task list stays as it
  is. Any other event of the chain, such as the later \<open>FB_EVENT_BLANK\<close> of the same
  transition, leaves the state as it is.
\<close>

theorem fb_blank_sets_screen_state_and_queues_work:
  assumes "FB_BLANK_POWERDOWN k \<noteq> FB_BLANK_UNBLANK k"
  shows
    "(let s1 = snd (fb_notifier_callback k (FB_EARLY_EVENT_BLANK k) (FB_BLANK_POWERDOWN k) s);
          s2 = run_op k p Pm_work s1 in
        screen_state (fpc1020 s1) = 0 \<and> pm_work_pending s1 \<and>
        calls s1 = calls s @ [Queue_work] \<and>
        tasklist s2 = renice_first (MIN_NICE k) (tasklist s) \<and>
        calls s2 = calls s1 @ [Read_lock_tasklist] @
          (case find named_fingerprintd (tasklist s) of None \<Rightarrow> []
           | Some d \<Rightarrow> [Set_user_nice (pid d) (MIN_NICE k)]) @
          [Read_unlock_tasklist, Sysfs_notify ''screen_state'']) \<and>
     (let s1 = snd (fb_notifier_callback k (FB_EARLY_EVENT_BLANK k) (FB_BLANK_UNBLANK k) s);
          s2 = run_op k p Pm_work s1 in
        screen_state (fpc1020 s1) = 1 \<and> pm_work_pending s1 \<and>
        calls s1 = calls s @ [Queue_work] \<and>
        tasklist s2 = renice_first 0 (tasklist s) \<and>
        calls s2 = calls s1 @ [Read_lock_tasklist] @
          (case find named_fingerprintd (tasklist s) of None \<Rightarrow> []
           | Some d \<Rightarrow> [Set_user_nice (pid d) 0]) @
          [Read_unlock_tasklist, Sysfs_notify ''screen_state'']) \<and>
     (tasklist s = pre @ d # post \<and> comm d = ''fingerprintd'' \<and>
      (\<forall>t\<in>set pre. NUL \<notin> set (comm t) \<and> comm t \<noteq> ''fingerprintd'') \<longrightarrow>
        find named_fingerprintd (tasklist s) = Some d \<and>
        (\<forall>n. renice_first n (tasklist s) = pre @ d\<lparr>nice := n\<rparr> # post)) \<and>
     (find named_fingerprintd (tasklist s) = None \<longrightarrow>
        (\<forall>n. renice_first n (tasklist s) = tasklist s)) \<and>
     (event \<noteq> FB_EARLY_EVENT_BLANK k \<longrightarrow> fb_notifier_callback k event blank s = (0, s))"
proof (intro conjI impI)
  show "let s1 = snd (fb_notifier_callback k (FB_EARLY_EVENT_BLANK k) (FB_BLANK_POWERDOWN k) s);
          s2 = run_op k p Pm_work s1 in
        screen_state (fpc1020 s1) = 0 \<and> pm_work_pending s1 \<and>
        calls s1 = calls s @ [Queue_work] \<and>
        tasklist s2 = renice_first (MIN_NICE k) (tasklist s) \<and>
        calls s2 = calls s1 @ [Read_lock_tasklist] @
          (case find named_fingerprintd (tasklist s) of None \<Rightarrow> []
           | Some d \<Rightarrow> [Set_user_nice (pid d) (MIN_NICE k)]) @
          [Read_unlock_tasklist, Sysfs_notify ''screen_state'']"
    using assms
    by (simp add: fb_notifier_callback_def queue_work_def fpc1020_suspend_resume_def
        Let_def set_fingerprintd_nice_eq)
  show "let s1 = snd (fb_notifier_callback k (FB_EARLY_EVENT_BLANK k) (FB_BLANK_UNBLANK k) s);
          s2 = run_op k p Pm_work s1 in
        screen_state (fpc1020 s1) = 1 \<and> pm_work_pending s1 \<and>
        calls s1 = calls s @ [Queue_work] \<and>
        tasklist s2 = renice_first 0 (tasklist s) \<and>
        calls s2 = calls s1 @ [Read_lock_tasklist] @
          (case find named_fingerprintd (tasklist s) of None \<Rightarrow> []
           | Some d \<Rightarrow> [Set_user_nice (pid d) 0]) @
          [Read_unlock_tasklist, Sysfs_notify ''screen_state'']"
    by (simp add: fb_notifier_callback_def queue_work_def fpc1020_suspend_resume_def
        Let_def set_fingerprintd_nice_eq)
next
  assume a: "tasklist s = pre @ d # post \<and> comm d = ''fingerprintd'' \<and>
      (\<forall>t\<in>set pre. NUL \<notin> set (comm t) \<and> comm t \<noteq> ''fingerprintd'')"
  then have d: "named_fingerprintd d" and pre: "\<forall>t\<in>set pre. \<not> named_fingerprintd t"
    using named_by_comm [of d pre] by simp_all
  from a pre d show "find named_fingerprintd (tasklist s) = Some d"
    by (simp add: find_first)
  from a pre d show "\<forall>n. renice_first n (tasklist s) = pre @ d\<lparr>nice := n\<rparr> # post"
    by (simp add: renice_first_first)
next
  assume "find named_fingerprintd (tasklist s) = None"
  then show "\<forall>n. renice_first n (tasklist s) = tasklist s"
    by (simp add: renice_first_none)
next
  assume "event \<noteq> FB_EARLY_EVENT_BLANK k"
  then show "fb_notifier_callback k event blank s = (0, s)"
    by (simp add: fb_notifier_callback_def)
qed

theorem fb_blank_sets_screen_state_and_queues_work_witness:
  "(let s1 = snd (fb_notifier_callback linux_hdr 0x10 4 boot);
        s2 = run_op linux_hdr (board 1 0 0) Pm_work s1 in
      screen_state (fpc1020 s1) = 0 \<and> pm_work_pending s1 \<and>
      map nice (tasklist s2) = [0, - 20, 0] \<and>
      calls s2 = [Queue_work, Read_lock_tasklist, Set_user_nice 540 (- 20),
                  Read_unlock_tasklist, Sysfs_notify ''screen_state'']) \<and>
   (let s1 = snd (fb_notifier_callback linux_hdr 0x10 0 boot);
        s2 = run_op linux_hdr (board 1 0 0) Pm_work s1 in
      screen_state (fpc1020 s1) = 1 \<and> pm_work_pending s1 \<and>
      map nice (tasklist s2) = [0, 0, 0] \<and>
      calls s2 = [Queue_work, Read_lock_tasklist, Set_user_nice 540 0,
                  Read_unlock_tasklist, Sysfs_notify ''screen_state'']) \<and>
   (let s0 = boot\<lparr>tasklist := [\<lparr>pid = 1, comm = ''init'', nice = 0\<rparr>]\<rparr>;
        s1 = snd (fb_notifier_callback linux_hdr 0x10 4 s0);
        s2 = run_op linux_hdr (board 1 0 0) Pm_work s1 in
      screen_state (fpc1020 s1) = 0 \<and> pm_work_pending s1 \<and>
      map nice (tasklist s2) = [0] \<and>
      calls s2 = [Queue_work, Read_lock_tasklist, Read_unlock_tasklist,
                  Sysfs_notify ''screen_state'']) \<and>
   fb_notifier_callback linux_hdr 9 4 boot = (0, boot)"
proof -
  let ?init = "\<lparr>pid = 1, comm = ''init'', nice = 0\<rparr>"
  let ?d = "\<lparr>pid = 540, comm = ''fingerprintd'', nice = 0\<rparr>"
  let ?e = "\<lparr>pid = 541, comm = ''fingerprintd'', nice = 0\<rparr>"
  let ?s0 = "boot\<lparr>tasklist := [?init]\<rparr>"
  have h1: "FB_BLANK_POWERDOWN linux_hdr \<noteq> FB_BLANK_UNBLANK linux_hdr"
    by (simp add: linux_hdr_def)
  have h2: "tasklist boot = [?init] @ ?d # [?e] \<and> comm ?d = ''fingerprintd'' \<and>
            (\<forall>t\<in>set [?init]. NUL \<notin> set (comm t) \<and> comm t \<noteq> ''fingerprintd'')"
    by (simp add: boot_def NUL_def)
  have h5: "(9::nat) \<noteq> FB_EARLY_EVENT_BLANK linux_hdr"
    by (simp add: linux_hdr_def)
  have c: "calls boot = []" "calls ?s0 = []" "tasklist ?s0 = [?init]"
    by (simp_all add: boot_def)
  have "\<not> named_fingerprintd ?init"
    by (subst named_fingerprintd_iff) (simp_all add: NUL_def)
  then have n0: "find named_fingerprintd (tasklist ?s0) = None"
    by (simp add: c)
  note A = fb_blank_sets_screen_state_and_queues_work
    [OF h1, of boot "board 1 0 0" "[?init]" ?d "[?e]" 9 4]
  note B = fb_blank_sets_screen_state_and_queues_work
    [OF h1, of ?s0 "board 1 0 0" "[]" ?init "[]" 9 4]
  from A h2 h5 c(1)
  have a: "(let s1 = snd (fb_notifier_callback linux_hdr 0x10 4 boot);
        s2 = run_op linux_hdr (board 1 0 0) Pm_work s1 in
      screen_state (fpc1020 s1) = 0 \<and> pm_work_pending s1 \<and>
      map nice (tasklist s2) = [0, - 20, 0] \<and>
      calls s2 = [Queue_work, Read_lock_tasklist, Set_user_nice 540 (- 20),
                  Read_unlock_tasklist, Sysfs_notify ''screen_state'']) \<and>
   (let s1 = snd (fb_notifier_callback linux_hdr 0x10 0 boot);
        s2 = run_op linux_hdr (board 1 0 0) Pm_work s1 in
      screen_state (fpc1020 s1) = 1 \<and> pm_work_pending s1 \<and>
      map nice (tasklist s2) = [0, 0, 0] \<and>
      calls s2 = [Queue_work, Read_lock_tasklist, Set_user_nice 540 0,
                  Read_unlock_tasklist, Sysfs_notify ''screen_state'']) \<and>
   fb_notifier_callback linux_hdr 9 4 boot = (0, boot)"
    by (simp add: Let_def linux_hdr_def)
  from B n0 c(2,3)
  have b: "let s0 = ?s0;
        s1 = snd (fb_notifier_callback linux_hdr 0x10 4 s0);
        s2 = run_op linux_hdr (board 1 0 0) Pm_work s1 in
      screen_state (fpc1020 s1) = 0 \<and> pm_work_pending s1 \<and>
      map nice (tasklist s2) = [0] \<and>
      calls s2 = [Queue_work, Read_lock_tasklist, Read_unlock_tasklist,
                  Sysfs_notify ''screen_state'']"
    by (simp add: Let_def linux_hdr_def)
  from a b show ?thesis by simp
qed

subsection \<open>The sensor version\<close>

lemma probe_sensor_id_version:
  "sensor_version (fpc1020 (probe_sensor_id p s)) =
     (case ids_read p s of (id0, id1, id2) \<Rightarrow> if fpc1245_pattern id0 id1 id2 then 1 else 2)"
  by (simp add: probe_sensor_id_def set_sensor_version_def Let_def ids_read_def
      fpc1245_pattern_def)

lemma probe_sensor_id_ids: "ids_read p (probe_sensor_id p s) = ids_read p s"
  by (simp add: probe_sensor_id_def set_sensor_version_def Let_def ids_read_def)

lemma probe_devices_ok:
  "fst (probe_devices k p s) = 0 \<Longrightarrow> ENOMEM k \<noteq> 0 \<Longrightarrow>
     \<exists>s1. snd (probe_devices k p s) = probe_sensor_id p s1"
  by (auto simp: probe_devices_def fpc1020_input_init_def Let_def split: if_splits)

lemma probe_pins_ok:
  "fst (probe_pins k p s) = 0 \<Longrightarrow> ENOMEM k \<noteq> 0 \<Longrightarrow>
     \<exists>s1. snd (probe_pins k p s) = probe_sensor_id p s1"
  by (simp add: probe_pins_def ONEPLUS_EDIT_def probe_devices_ok)

lemma fpc1020_probe_ok:
  "fst (fpc1020_probe k p s) = 0 \<Longrightarrow> ENOMEM k \<noteq> 0 \<Longrightarrow> EINVAL k \<noteq> 0 \<Longrightarrow>
     \<exists>s1. snd (fpc1020_probe k p s) = probe_sensor_id p s1"
  by (auto simp: fpc1020_probe_def Let_def probe_pins_ok split: if_splits prod.splits)

lemma dec_digits_1: "dec_digits (Suc 0) = ''1''"
  by code_simp

lemma dec_digits_2: "dec_digits 2 = ''2''"
  by code_simp

lemma scnprintf_1: "3 \<le> sz \<Longrightarrow> scnprintf_i sz 1 = (''1'' @ [CHR 0x0A], 2)"
  by (simp add: scnprintf_i_def fmt_i_def dec_digits_1)

lemma scnprintf_2: "3 \<le> sz \<Longrightarrow> scnprintf_i sz 2 = (''2'' @ [CHR 0x0A], 2)"
  by (simp add: scnprintf_i_def fmt_i_def dec_digits_2)

lemma fpc1020_set_fingerprintd_nice [simp]:
  "fpc1020 (set_fingerprintd_nice n s) = fpc1020 s"
  by (simp add: set_fingerprintd_nice_def Let_def)

lemma run_op_sensor_version:
  "x \<noteq> Probe \<Longrightarrow>
     sensor_version (fpc1020 (run_op k p x s)) = sensor_version (fpc1020 s)"
  by (cases x)
     (simp_all add: fpc1020_irq_handler_def fb_notifier_callback_def queue_work_def
        fpc1020_suspend_resume_def irq_get_def irq_ack_def report_home_set_def
        update_info_set_def screen_state_get_def sensor_version_get_def Let_def)

lemma run_ops_sensor_version:
  "Probe \<notin> set xs \<Longrightarrow>
     sensor_version (fpc1020 (run_ops k p xs s)) = sensor_version (fpc1020 s)"
  by (induction xs arbitrary: s) (auto simp: run_op_sensor_version)

text \<open>
  C10. When probe has succeeded, \<open>sensor_version\<close> is 0x01 or 0x02; it is 0x01 exactly
  when the levels of the three identification lines form one of the fpc1245 patterns
  (1,1,1), (1,0,0) and (0,0,1), and 0x02 for every other pattern; reading the sysfs
  attribute \<open>sensor_version\<close> returns that value in decimal; and no later operation
  of the module other than a new probe changes it.
\<close>

theorem probe_sensor_version:
  assumes "fst (fpc1020_probe k p s) = 0" and "ENOMEM k \<noteq> 0" and "EINVAL k \<noteq> 0"
  shows "let s' = snd (fpc1020_probe k p s); v = sensor_version (fpc1020 s') in
           (v = 0x01 \<or> v = 0x02) \<and>
           (v = 0x01) = (case ids_read p s' of (id0, id1, id2) \<Rightarrow> fpc1245_pattern id0 id1 id2) \<and>
           (3 \<le> PAGE_SIZE k \<longrightarrow>
              fst (sensor_version_get k s') =
                ((if v = 0x01 then ''1'' else ''2'') @ [CHR 0x0A], 2)) \<and>
           (\<forall>q xs. Probe \<notin> set xs \<longrightarrow>
              sensor_version (fpc1020 (run_ops k q xs s')) = v)"
proof -
  from assms obtain s1 where s1: "snd (fpc1020_probe k p s) = probe_sensor_id p s1"
    using fpc1020_probe_ok by blast
  obtain id0 id1 id2 where ids: "ids_read p s1 = (id0, id1, id2)"
    by (cases "ids_read p s1") auto
  have v: "sensor_version (fpc1020 (probe_sensor_id p s1)) =
             (if fpc1245_pattern id0 id1 id2 then 1 else 2)"
    by (simp add: probe_sensor_id_version ids)
  have i: "ids_read p (probe_sensor_id p s1) = (id0, id1, id2)"
    by (simp add: probe_sensor_id_ids ids)
  show ?thesis
    unfolding s1 Let_def
    by (simp add: v i sensor_version_get_def scnprintf_1 scnprintf_2 run_ops_sensor_version)
qed

theorem probe_sensor_version_witness:
  "fst (fpc1020_probe linux_hdr (board 1 0 0) boot) = 0 \<and>
   sensor_version (fpc1020 (snd (fpc1020_probe linux_hdr (board 1 0 0) boot))) = 1 \<and>
   fst (sensor_version_get linux_hdr (snd (fpc1020_probe linux_hdr (board 1 0 0) boot))) =
     (''1'' @ [CHR 0x0A], 2) \<and>
   sensor_version (fpc1020 (run_ops linux_hdr (board 1 0 0) [Irq, Fb_notify 16 4, Pm_work]
     (snd (fpc1020_probe linux_hdr (board 1 0 0) boot)))) = 1"
proof -
  have h1: "fst (fpc1020_probe linux_hdr (board 1 0 0) boot) = 0" by (rule probe_board_ok)
  have h2: "ENOMEM linux_hdr \<noteq> 0" and h3: "EINVAL linux_hdr \<noteq> 0"
    by (simp_all add: linux_hdr_def)
  have i: "ids_read (board 1 0 0) (snd (fpc1020_probe linux_hdr (board 1 0 0) boot)) = (1, 0, 0)"
    by (simp add: ids_read_def probe_board_data kzalloc_data_def board_simps)
  have pg: "3 \<le> PAGE_SIZE linux_hdr" by (simp add: linux_hdr_def)
  have np: "Probe \<notin> set [Irq, Fb_notify 16 4, Pm_work]" by simp
  from probe_sensor_version [OF h1 h2 h3] i pg np h1
  show ?thesis
    by (simp add: Let_def fpc1245_pattern_def del: run_ops.simps)
qed

subsection \<open>The calls the module makes\<close>

lemma extends_iff:
  "extends s s' = (\<exists>xs. calls s' = calls s @ xs \<and> list_all driver_call xs)"
  by (auto simp: extends_def new_calls_def prefix_def)

lemma extends_refl [simp]: "extends s s"
  by (simp add: extends_iff)

lemma extends_trans: "extends s s1 \<Longrightarrow> extends s1 s2 \<Longrightarrow> extends s s2"
  by (auto simp: extends_iff)

lemma extends_call: "driver_call c \<Longrightarrow> extends s s1 \<Longrightarrow> extends s (call c s1)"
  by (auto simp: extends_iff)

lemma extends_fpc1020_update [simp]: "extends s (s1\<lparr>fpc1020 := d\<rparr>) = extends s s1"
  by (simp add: extends_iff)

lemma extends_pending_update [simp]: "extends s (s1\<lparr>pm_work_pending := b\<rparr>) = extends s s1"
  by (simp add: extends_iff)

lemma extends_from_update [simp]: "extends (s\<lparr>pm_work_pending := b\<rparr>) s1 = extends s s1"
  by (simp add: extends_iff)

lemma request_named_gpio_extends:
  "l \<in> set probe_gpio_labels \<Longrightarrow> extends s s1 \<Longrightarrow>
     extends s (snd (fpc1020_request_named_gpio p l store s1))"
  by (simp add: fpc1020_request_named_gpio_def Let_def extends_call)

lemma probe_id_gpio_extends:
  "l \<in> set probe_gpio_labels \<Longrightarrow> extends s s1 \<Longrightarrow>
     extends s (snd (probe_id_gpio p l store field s1))"
  by (simp add: probe_id_gpio_def split_beta extends_call request_named_gpio_extends)

lemma probe_id_gpios_extends:
  "extends s s1 \<Longrightarrow> extends s (snd (probe_id_gpios p s1))"
  by (simp add: probe_id_gpios_def split_beta probe_id_gpio_extends probe_gpio_labels_def)

lemma probe_sensor_id_extends:
  "extends s s1 \<Longrightarrow> extends s (probe_sensor_id p s1)"
  by (simp add: probe_sensor_id_def set_sensor_version_def Let_def extends_call)

lemma input_init_extends:
  "extends s s1 \<Longrightarrow> extends s (snd (fpc1020_input_init k p s1))"
  by (simp add: fpc1020_input_init_def Let_def extends_call)

lemma probe_devices_extends:
  "extends s s1 \<Longrightarrow> extends s (snd (probe_devices k p s1))"
  by (simp add: probe_devices_def Let_def split_beta extends_call input_init_extends
      probe_sensor_id_extends)

lemma probe_pins_extends:
  "extends s s1 \<Longrightarrow> extends s (snd (probe_pins k p s1))"
  by (simp add: probe_pins_def ONEPLUS_EDIT_def probe_devices_extends probe_id_gpios_extends)

lemma fpc1020_probe_extends:
  "extends s s1 \<Longrightarrow> extends s (snd (fpc1020_probe k p s1))"
  by (simp add: fpc1020_probe_def Let_def split_beta extends_call probe_pins_extends
      request_named_gpio_extends probe_gpio_labels_def)

lemma for_each_process_calls: "list_all driver_call (fst (for_each_process n ts))"
  by (induction ts) (simp_all add: split_beta)

lemma set_fingerprintd_nice_extends:
  "extends s s1 \<Longrightarrow> extends s (set_fingerprintd_nice n s1)"
  by (auto simp: set_fingerprintd_nice_def Let_def extends_iff for_each_process_calls)

lemma run_op_extends: "extends s s1 \<Longrightarrow> extends s (run_op k p x s1)"
  by (cases x)
     (simp_all add: fpc1020_probe_extends fpc1020_irq_handler_def fb_notifier_callback_def
        queue_work_def fpc1020_suspend_resume_def irq_get_def irq_ack_def
        report_home_set_def update_info_set_def screen_state_get_def sensor_version_get_def
        Let_def extends_call set_fingerprintd_nice_extends)

lemma run_ops_extends: "extends s s1 \<Longrightarrow> extends s (run_ops k p xs s1)"
  by (induction xs arbitrary: s1) (simp_all add: run_op_extends)

lemma driver_call_reset: "driver_call c \<Longrightarrow> reset_line_untouched c"
  by (cases c) (simp_all add: reset_line_untouched_def)

lemma driver_call_pinctrl: "driver_call c \<Longrightarrow> \<not> pinctrl_call c"
  by (cases c) simp_all

lemma driver_call_data_plane: "driver_call c \<Longrightarrow> \<not> data_plane_call c"
  by (cases c) simp_all

lemma new_calls_run_ops: "list_all driver_call (new_calls s (run_ops k p xs s))"
  using run_ops_extends [of s s k p xs] by (simp add: extends_def)

lemma list_all_weaken: "list_all P xs \<Longrightarrow> (\<And>x. P x \<Longrightarrow> Q x) \<Longrightarrow> list_all Q xs"
  by (induction xs) auto

lemma unused_fields_updates [simp]:
  "unused_fields (d\<lparr>irq_gpio := g\<rparr>) = unused_fields d"
  "unused_fields (d\<lparr>id0_gpio := g\<rparr>) = unused_fields d"
  "unused_fields (d\<lparr>id1_gpio := g\<rparr>) = unused_fields d"
  "unused_fields (d\<lparr>id2_gpio := g\<rparr>) = unused_fields d"
  "unused_fields (d\<lparr>input_dev := i\<rparr>) = unused_fields d"
  "unused_fields (d\<lparr>screen_state := g\<rparr>) = unused_fields d"
  "unused_fields (d\<lparr>sensor_version := g\<rparr>) = unused_fields d"
  by (simp_all add: unused_fields_def)

lemma request_named_gpio_unused:
  "(\<And>g d. unused_fields (store g d) = unused_fields d) \<Longrightarrow>
     unused_fields (fpc1020 (snd (fpc1020_request_named_gpio p l store s))) =
     unused_fields (fpc1020 s)"
  by (simp add: fpc1020_request_named_gpio_def Let_def)

lemma probe_id_gpio_unused:
  "(\<And>g d. unused_fields (store g d) = unused_fields d) \<Longrightarrow>
     unused_fields (fpc1020 (snd (probe_id_gpio p l store field s))) =
     unused_fields (fpc1020 s)"
  by (simp add: probe_id_gpio_def split_beta request_named_gpio_unused)

lemma probe_id_gpios_unused:
  "unused_fields (fpc1020 (snd (probe_id_gpios p s))) = unused_fields (fpc1020 s)"
  by (simp add: probe_id_gpios_def split_beta probe_id_gpio_unused)

lemma probe_sensor_id_unused:
  "unused_fields (fpc1020 (probe_sensor_id p s)) = unused_fields (fpc1020 s)"
  by (simp add: probe_sensor_id_def set_sensor_version_def Let_def)

lemma input_init_unused:
  "unused_fields (fpc1020 (snd (fpc1020_input_init k p s))) = unused_fields (fpc1020 s)"
  by (simp add: fpc1020_input_init_def Let_def)

lemma probe_devices_unused:
  "unused_fields (fpc1020 (snd (probe_devices k p s))) = unused_fields (fpc1020 s)"
  by (simp add: probe_devices_def Let_def split_beta probe_sensor_id_unused input_init_unused)

lemma probe_pins_unused:
  "unused_fields (fpc1020 (snd (probe_pins k p s))) = unused_fields (fpc1020 s)"
  by (simp add: probe_pins_def ONEPLUS_EDIT_def probe_devices_unused probe_id_gpios_unused)

lemma fpc1020_probe_unused:
  "unused_fields (fpc1020 (snd (fpc1020_probe k p s))) =
     (if kzalloc_ok p then unused_fields kzalloc_data else unused_fields (fpc1020 s))"
proof -
  have r: "\<And>s. unused_fields (fpc1020 (snd (fpc1020_request_named_gpio p ''fpc,irq-gpio''
              (\<lambda>g d. d\<lparr>irq_gpio := g\<rparr>) s))) = unused_fields (fpc1020 s)"
    by (rule request_named_gpio_unused) simp
  show ?thesis
    by (simp add: fpc1020_probe_def Let_def split_beta probe_pins_unused r)
qed

lemma run_op_unused:
  "unused_fields (fpc1020 (run_op k p x s)) = unused_fields (fpc1020 s) \<or>
   unused_fields (fpc1020 (run_op k p x s)) = unused_fields kzalloc_data"
  by (cases x)
     (simp_all add: fpc1020_probe_unused fpc1020_irq_handler_def fb_notifier_callback_def
        queue_work_def fpc1020_suspend_resume_def irq_get_def irq_ack_def
        report_home_set_def update_info_set_def screen_state_get_def sensor_version_get_def
        Let_def)

lemma run_ops_unused:
  "unused_fields (fpc1020 (run_ops k p xs s)) = unused_fields (fpc1020 s) \<or>
   unused_fields (fpc1020 (run_ops k p xs s)) = unused_fields kzalloc_data"
proof (induction xs arbitrary: s)
  case Nil
  show ?case by simp
next
  case (Cons x xs)
  from Cons.IH [of "run_op k p x s"] run_op_unused [of k p x s]
  show ?case by auto
qed

subsection \<open>Bursts of interrupts\<close>

lemma driver_call_debounce: "driver_call c \<Longrightarrow> \<not> debounce_call c"
  by (cases c) simp_all

lemma irq_handler_state:
  "snd (fpc1020_irq_handler k s) =
     s\<lparr>calls := calls s @
         [Wake_lock_timeout (msecs_to_jiffies k FPC_TTW_HOLD_TIME), Sysfs_notify ''irq''] @
         (if screen_state (fpc1020 s) = 0
          then [Input_report_key KEY_FINGERPRINT 1, Input_sync,
                Input_report_key KEY_FINGERPRINT 0, Input_sync]
          else [])\<rparr>"
  by (simp add: fpc1020_irq_handler_def Let_def call_def)

lemma irq_handler_new_calls:
  "new_calls s (snd (fpc1020_irq_handler k s)) =
     [Wake_lock_timeout (msecs_to_jiffies k FPC_TTW_HOLD_TIME), Sysfs_notify ''irq''] @
     (if screen_state (fpc1020 s) = 0
      then [Input_report_key KEY_FINGERPRINT 1, Input_sync,
            Input_report_key KEY_FINGERPRINT 0, Input_sync]
      else [])"
  by (simp add: irq_handler_state new_calls_def)

lemma irq_handler_appends:
  "snd (fpc1020_irq_handler k s) =
     s\<lparr>calls := calls s @ new_calls s (snd (fpc1020_irq_handler k s))\<rparr>"
  unfolding irq_handler_new_calls by (simp add: irq_handler_state)

lemma irq_handler_new_calls_again:
  "new_calls (s\<lparr>calls := cs\<rparr>) (snd (fpc1020_irq_handler k (s\<lparr>calls := cs\<rparr>))) =
     new_calls s (snd (fpc1020_irq_handler k s))"
  unfolding irq_handler_new_calls by simp

lemma run_ops_Irq:
  "run_ops k p (replicate n Irq) s =
     s\<lparr>calls := calls s @
        concat (replicate n (new_calls s (snd (fpc1020_irq_handler k s))))\<rparr>"
proof (induction n arbitrary: s)
  case 0
  show ?case by simp
next
  case (Suc n)
  define h where "h = new_calls s (snd (fpc1020_irq_handler k s))"
  define s1 where "s1 = s\<lparr>calls := calls s @ h\<rparr>"
  have s1: "snd (fpc1020_irq_handler k s) = s1"
    unfolding s1_def h_def by (rule irq_handler_appends)
  have same: "new_calls s1 (snd (fpc1020_irq_handler k s1)) = h"
    unfolding s1_def h_def by (rule irq_handler_new_calls_again)
  have "run_ops k p (replicate (Suc n) Irq) s = run_ops k p (replicate n Irq) s1"
    by (simp add: s1)
  also have "\<dots> = s1\<lparr>calls := calls s1 @ concat (replicate n h)\<rparr>"
    unfolding Suc.IH [of s1] same ..
  also have "\<dots> = s\<lparr>calls := calls s @ concat (replicate (Suc n) h)\<rparr>"
    by (simp add: s1_def)
  finally show ?case unfolding h_def .
qed

lemma count_list_concat_replicate:
  "count_list (concat (replicate n xs)) x = n * count_list xs x"
  by (induction n) simp_all

lemma irq_burst_state:
  "irq_burst k p es s =
     s\<lparr>calls := calls s @
        concat (replicate (length (irq_core p (IRQF_TRIGGER_RISING k OR IRQF_ONESHOT k) es))
          (new_calls s (snd (fpc1020_irq_handler k s))))\<rparr>"
  by (simp add: irq_burst_def map_replicate_const run_ops_Irq)

lemma irq_burst_new_calls:
  "new_calls s (irq_burst k p es s) =
     concat (replicate (length (irq_core p (IRQF_TRIGGER_RISING k OR IRQF_ONESHOT k) es))
       (new_calls s (snd (fpc1020_irq_handler k s))))"
  by (simp add: irq_burst_state new_calls_def)

lemma irq_burst_events:
  "irq_events s (irq_burst k p es s) =
     length (irq_core p (IRQF_TRIGGER_RISING k OR IRQF_ONESHOT k) es)"
  unfolding irq_events_def irq_burst_new_calls
  by (simp add: count_list_concat_replicate irq_handler_new_calls)

text \<open>
  C3, as the code has it. The driver does not debounce. Whatever edges arrive on the
  interrupt line and however close in time they are, the handler runs once for each
  interrupt the kernel delivers and each run adds the calls of a single interrupt: with
  \<open>n\<close> runs there are \<open>n\<close> notifications of the attribute \<open>irq\<close> and, while
  \<open>screen_state\<close> is 0, \<open>n\<close> presses and \<open>n\<close> releases of \<open>KEY_FINGERPRINT\<close>. The
  handler keeps no state between interrupts (the driver's data is as before the burst),
  and no operation of the module asks the GPIO hardware to debounce a line.
\<close>

theorem irq_handler_one_event_per_interrupt:
  "(let n = length (irq_core p (IRQF_TRIGGER_RISING k OR IRQF_ONESHOT k) es);
        s' = irq_burst k p es s in
      fpc1020 s' = fpc1020 s \<and>
      new_calls s s' = concat (replicate n (new_calls s (snd (fpc1020_irq_handler k s)))) \<and>
      irq_events s s' = n \<and>
      count_list (new_calls s s') (Input_report_key KEY_FINGERPRINT 1) =
        (if screen_state (fpc1020 s) = 0 then n else 0) \<and>
      count_list (new_calls s s') (Input_report_key KEY_FINGERPRINT 0) =
        (if screen_state (fpc1020 s) = 0 then n else 0)) \<and>
   list_all (\<lambda>c. \<not> debounce_call c) (new_calls s (run_ops k p xs s))"
proof
  let ?n = "length (irq_core p (IRQF_TRIGGER_RISING k OR IRQF_ONESHOT k) es)"
  have data: "fpc1020 (irq_burst k p es s) = fpc1020 s"
    by (simp add: irq_burst_state)
  show "let n = ?n; s' = irq_burst k p es s in
      fpc1020 s' = fpc1020 s \<and>
      new_calls s s' = concat (replicate n (new_calls s (snd (fpc1020_irq_handler k s)))) \<and>
      irq_events s s' = n \<and>
      count_list (new_calls s s') (Input_report_key KEY_FINGERPRINT 1) =
        (if screen_state (fpc1020 s) = 0 then n else 0) \<and>
      count_list (new_calls s s') (Input_report_key KEY_FINGERPRINT 0) =
        (if screen_state (fpc1020 s) = 0 then n else 0)"
    unfolding Let_def irq_burst_events data
    unfolding irq_burst_new_calls
    by (simp add: count_list_concat_replicate irq_handler_new_calls)
  show "list_all (\<lambda>c. \<not> debounce_call c) (new_calls s (run_ops k p xs s))"
    using new_calls_run_ops by (rule list_all_weaken) (rule driver_call_debounce)
qed

theorem irq_handler_one_event_per_interrupt_witness:
  "(let s = run_ops linux_hdr (board 1 0 0) [Probe, Fb_notify 16 4] boot;
        s' = irq_burst linux_hdr (board 1 0 0)
               [(0, Rising), (1, Falling), (1, Rising), (2, Falling), (2, Rising)] s in
      screen_state (fpc1020 s) = 0 \<and> irq_events s s' = 3 \<and>
      count_list (new_calls s s') (Input_report_key KEY_FINGERPRINT 1) = 3 \<and>
      count_list (new_calls s s') (Input_report_key KEY_FINGERPRINT 0) = 3) \<and>
   (let s = run_ops linux_hdr (board 1 0 0) [Probe] boot;
        s' = irq_burst linux_hdr (board 1 0 0)
               [(0, Rising), (1, Falling), (1, Rising), (2, Falling), (2, Rising)] s in
      screen_state (fpc1020 s) = 1 \<and> irq_events s s' = 3 \<and>
      count_list (new_calls s s') (Input_report_key KEY_FINGERPRINT 1) = 0)"
proof -
  let ?es = "[(0::nat, Rising), (1, Falling), (1, Rising), (2, Falling), (2, Rising)]"
  let ?off = "run_ops linux_hdr (board 1 0 0) [Probe, Fb_notify 16 4] boot"
  let ?on = "run_ops linux_hdr (board 1 0 0) [Probe] boot"
  have n: "length (irq_core (board 1 0 0)
             (IRQF_TRIGGER_RISING linux_hdr OR IRQF_ONESHOT linux_hdr) ?es) = 3"
    by (simp add: board_simps linux_hdr_def)
  have off: "screen_state (fpc1020 ?off) = 0"
    by (simp add: fb_notifier_callback_def queue_work_def probe_board_data linux_hdr_def)
  have on: "screen_state (fpc1020 ?on) = 1"
    by (simp add: probe_board_data)
  note A = irq_handler_one_event_per_interrupt
    [of "board 1 0 0" linux_hdr ?es ?off "[]", unfolded Let_def n, THEN conjunct1]
  note B = irq_handler_one_event_per_interrupt
    [of "board 1 0 0" linux_hdr ?es ?on "[]", unfolded Let_def n, THEN conjunct1]
  from A have a1: "irq_events ?off (irq_burst linux_hdr (board 1 0 0) ?es ?off) = 3"
    and a2: "count_list (new_calls ?off (irq_burst linux_hdr (board 1 0 0) ?es ?off))
               (Input_report_key KEY_FINGERPRINT 1) =
             (if screen_state (fpc1020 ?off) = 0 then 3 else 0)"
    and a3: "count_list (new_calls ?off (irq_burst linux_hdr (board 1 0 0) ?es ?off))
               (Input_report_key KEY_FINGERPRINT 0) =
             (if screen_state (fpc1020 ?off) = 0 then 3 else 0)"
    by blast+
  from B have b1: "irq_events ?on (irq_burst linux_hdr (board 1 0 0) ?es ?on) = 3"
    and b2: "count_list (new_calls ?on (irq_burst linux_hdr (board 1 0 0) ?es ?on))
               (Input_report_key KEY_FINGERPRINT 1) =
             (if screen_state (fpc1020 ?on) = 0 then 3 else 0)"
    by blast+
  show ?thesis
    unfolding Let_def a1 a2 a3 b1 b2 off on by simp
qed

text \<open>
  The claim as the specification states it fails. After probe on the example board,
  three rising edges within three jiffies give three notifications; and whatever the
  width of the debounce window, there is a burst of edges within it, two rising edges in
  one jiffy, that gives more than one notification.
\<close>

theorem irq_burst_debounced_counterexample:
  "(let s = snd (fpc1020_probe linux_hdr (board 1 0 0) boot);
        es = [(0, Rising), (1, Falling), (1, Rising), (2, Falling), (2, Rising)] in
      burst_within 3 es \<and> irq_events s (irq_burst linux_hdr (board 1 0 0) es s) = 3) \<and>
   \<not> (\<exists>w>0. \<forall>es. burst_within w es \<longrightarrow>
          irq_events (snd (fpc1020_probe linux_hdr (board 1 0 0) boot))
            (irq_burst linux_hdr (board 1 0 0) es
               (snd (fpc1020_probe linux_hdr (board 1 0 0) boot))) \<le> 1)"
proof
  let ?s = "snd (fpc1020_probe linux_hdr (board 1 0 0) boot)"
  have ev: "\<And>es. irq_events ?s (irq_burst linux_hdr (board 1 0 0) es ?s) =
              length (filter (\<lambda>e. snd e = Rising) es)"
    by (simp add: irq_burst_events board_simps linux_hdr_def)
  show "let s = ?s; es = [(0, Rising), (1, Falling), (1, Rising), (2, Falling), (2, Rising)] in
      burst_within 3 es \<and> irq_events s (irq_burst linux_hdr (board 1 0 0) es s) = 3"
    unfolding Let_def ev by (simp add: burst_within_def)
  show "\<not> (\<exists>w>0. \<forall>es. burst_within w es \<longrightarrow>
          irq_events ?s (irq_burst linux_hdr (board 1 0 0) es ?s) \<le> 1)"
  proof
    assume "\<exists>w>0. \<forall>es. burst_within w es \<longrightarrow>
          irq_events ?s (irq_burst linux_hdr (board 1 0 0) es ?s) \<le> 1"
    then obtain w where w: "0 < w"
      and all: "\<And>es. burst_within w es \<Longrightarrow>
          irq_events ?s (irq_burst linux_hdr (board 1 0 0) es ?s) \<le> 1"
      by blast
    let ?es = "[(0::nat, Rising), (0, Falling), (0, Rising)]"
    from w have "burst_within w ?es" by (simp add: burst_within_def)
    from all [OF this] show False unfolding ev by simp
  qed
qed

subsection \<open>The reset line, pin control and the data protocol\<close>

lemma rst_gpio_unused: "unused_fields d = unused_fields d' \<Longrightarrow> rst_gpio d = rst_gpio d'"
  by (simp add: unused_fields_def)

lemma pinctrl_unused:
  "unused_fields d = unused_fields d' \<Longrightarrow>
     ts_pinctrl d = ts_pinctrl d' \<and> gpio_state_active d = gpio_state_active d' \<and>
     gpio_state_suspend d = gpio_state_suspend d'"
  by (simp add: unused_fields_def)

text \<open>
  C4, as the code has it. Whatever operations of the module run, in whatever order and
  on whatever platform, no call they make drives a GPIO line, and the only device-tree
  properties they look up or request are those of the interrupt line and of the three
  identification lines; the field \<open>rst_gpio\<close> is never assigned, so it keeps its value
  or holds the zero of \<open>devm_kzalloc\<close> after a probe.
\<close>

theorem reset_gpio_never_requested_or_driven:
  "list_all reset_line_untouched (new_calls s (run_ops k p xs s)) \<and>
   (rst_gpio (fpc1020 (run_ops k p xs s)) = rst_gpio (fpc1020 s) \<or>
    rst_gpio (fpc1020 (run_ops k p xs s)) = 0)"
proof
  show "list_all reset_line_untouched (new_calls s (run_ops k p xs s))"
    using new_calls_run_ops by (rule list_all_weaken) (rule driver_call_reset)
  from run_ops_unused [of k p xs s]
  show "rst_gpio (fpc1020 (run_ops k p xs s)) = rst_gpio (fpc1020 s) \<or>
        rst_gpio (fpc1020 (run_ops k p xs s)) = 0"
  proof
    assume "unused_fields (fpc1020 (run_ops k p xs s)) = unused_fields (fpc1020 s)"
    then have "rst_gpio (fpc1020 (run_ops k p xs s)) = rst_gpio (fpc1020 s)"
      by (rule rst_gpio_unused)
    then show ?thesis by (rule disjI1)
  next
    assume "unused_fields (fpc1020 (run_ops k p xs s)) = unused_fields kzalloc_data"
    then have "rst_gpio (fpc1020 (run_ops k p xs s)) = rst_gpio kzalloc_data"
      by (rule rst_gpio_unused)
    then show ?thesis by (simp add: kzalloc_data_def)
  qed
qed

theorem reset_gpio_never_requested_or_driven_witness:
  "list_all reset_line_untouched
     (new_calls boot (run_ops linux_hdr (board 1 0 0) [Probe, Irq] boot)) \<and>
   rst_gpio (fpc1020 (run_ops linux_hdr (board 1 0 0) [Probe, Irq] boot)) = 0"
  using reset_gpio_never_requested_or_driven [of boot linux_hdr "board 1 0 0" "[Probe, Irq]"]
  by (simp add: boot_def kzalloc_data_def del: run_ops.simps)

text \<open>
  The claim as the specification states it fails: no run of the module contains a call
  that drives a GPIO line, and the GPIO lookups and requests of a complete probe on the
  example board are the four listed, none of them for a reset line.
\<close>

theorem reset_gpio_managed_counterexample:
  "\<not> (\<exists>k p xs s. list_ex gpio_output_call (new_calls s (run_ops k p xs s))) \<and>
   filter (\<lambda>c. gpio_label c \<noteq> None)
     (calls (run_ops linux_hdr (board 1 0 0) [Probe, Irq, Irq_get] boot)) =
     [Of_get_named_gpio ''fpc,irq-gpio'', Devm_gpio_request 121 ''fpc,irq-gpio'',
      Of_get_named_gpio ''fpc,gpio_id0'', Devm_gpio_request 39 ''fpc,gpio_id0'',
      Of_get_named_gpio ''fpc,gpio_id1'', Devm_gpio_request 41 ''fpc,gpio_id1'',
      Of_get_named_gpio ''fpc,gpio_id2'', Devm_gpio_request 63 ''fpc,gpio_id2'']"
proof
  show "\<not> (\<exists>k p xs s. list_ex gpio_output_call (new_calls s (run_ops k p xs s)))"
  proof
    assume "\<exists>k p xs s. list_ex gpio_output_call (new_calls s (run_ops k p xs s))"
    then obtain k p xs s c where c: "c \<in> set (new_calls s (run_ops k p xs s))"
      and g: "gpio_output_call c"
      by (auto simp: list_ex_iff)
    from new_calls_run_ops [of s k p xs] c have "driver_call c"
      by (simp add: list_all_iff)
    with g show False by (cases c) simp_all
  qed
  show "filter (\<lambda>c. gpio_label c \<noteq> None)
     (calls (run_ops linux_hdr (board 1 0 0) [Probe, Irq, Irq_get] boot)) =
     [Of_get_named_gpio ''fpc,irq-gpio'', Devm_gpio_request 121 ''fpc,irq-gpio'',
      Of_get_named_gpio ''fpc,gpio_id0'', Devm_gpio_request 39 ''fpc,gpio_id0'',
      Of_get_named_gpio ''fpc,gpio_id1'', Devm_gpio_request 41 ''fpc,gpio_id1'',
      Of_get_named_gpio ''fpc,gpio_id2'', Devm_gpio_request 63 ''fpc,gpio_id2'']"
    by (simp add: irq_handler_state irq_get_def Let_def probe_board_calls probe_board_data
        boot_def kzalloc_data_def)
qed

lemma new_calls_mid:
  "extends s s1 \<Longrightarrow> extends s1 s2 \<Longrightarrow> extends s2 s3 \<Longrightarrow>
     set (new_calls s1 s2) \<subseteq> set (new_calls s s3)"
  by (auto simp: extends_iff new_calls_def)

lemma probe_id_gpio_lookup:
  "Of_get_named_gpio l \<in> set (new_calls s (snd (probe_id_gpio p l store field s))) \<and>
   (0 \<le> of_get_named_gpio p l \<longrightarrow>
      Devm_gpio_request (of_get_named_gpio p l) l
        \<in> set (new_calls s (snd (probe_id_gpio p l store field s))))"
  by (simp add: probe_id_gpio_def fpc1020_request_named_gpio_def Let_def new_calls_def)

lemma probe_reaches_pins:
  "fst (fpc1020_probe k p s) = 0 \<Longrightarrow> ENOMEM k \<noteq> 0 \<Longrightarrow> EINVAL k \<noteq> 0 \<Longrightarrow>
     \<exists>s2. extends s s2 \<and> snd (fpc1020_probe k p s) = snd (probe_pins k p s2)"
proof -
  assume ok: "fst (fpc1020_probe k p s) = 0" and e: "ENOMEM k \<noteq> 0" "EINVAL k \<noteq> 0"
  let ?s1 = "call Dev_set_drvdata (call Devm_kzalloc s\<lparr>fpc1020 := kzalloc_data\<rparr>)"
  let ?r = "fpc1020_request_named_gpio p ''fpc,irq-gpio'' (\<lambda>g d. d\<lparr>irq_gpio := g\<rparr>) ?s1"
  let ?s2 = "call (Gpio_direction_input (irq_gpio (fpc1020 (snd ?r)))) (snd ?r)"
  have "extends s ?s1" by (simp add: extends_call)
  then have "extends s (snd ?r)"
    by (rule request_named_gpio_extends [rotated]) (simp add: probe_gpio_labels_def)
  then have x: "extends s ?s2" by (simp add: extends_call)
  from ok e have "snd (fpc1020_probe k p s) = snd (probe_pins k p ?s2)"
    by (simp add: fpc1020_probe_def Let_def split_beta split: if_splits)
  with x show ?thesis by blast
qed

lemma probe_looks_up_ids:
  assumes "fst (fpc1020_probe k p s) = 0" and "ENOMEM k \<noteq> 0" and "EINVAL k \<noteq> 0"
    and "l \<in> set probe_id_labels"
  shows "Of_get_named_gpio l \<in> set (new_calls s (snd (fpc1020_probe k p s))) \<and>
         (0 \<le> of_get_named_gpio p l \<longrightarrow>
            Devm_gpio_request (of_get_named_gpio p l) l
              \<in> set (new_calls s (snd (fpc1020_probe k p s))))"
proof -
  from assms(1-3) obtain s2 where s2: "extends s s2"
    and eq: "snd (fpc1020_probe k p s) = snd (probe_pins k p s2)"
    using probe_reaches_pins by blast
  let ?a = "snd (probe_id_gpio p ''fpc,gpio_id0'' (\<lambda>g d. d\<lparr>id0_gpio := g\<rparr>) id0_gpio s2)"
  let ?b = "snd (probe_id_gpio p ''fpc,gpio_id1'' (\<lambda>g d. d\<lparr>id1_gpio := g\<rparr>) id1_gpio ?a)"
  let ?c = "snd (probe_id_gpio p ''fpc,gpio_id2'' (\<lambda>g d. d\<lparr>id2_gpio := g\<rparr>) id2_gpio ?b)"
  let ?f = "snd (probe_devices k p ?c)"
  have f: "snd (fpc1020_probe k p s) = ?f"
    by (simp add: eq probe_pins_def ONEPLUS_EDIT_def probe_id_gpios_def split_beta)
  have l0: "''fpc,gpio_id0'' \<in> set probe_gpio_labels"
    and l1: "''fpc,gpio_id1'' \<in> set probe_gpio_labels"
    and l2: "''fpc,gpio_id2'' \<in> set probe_gpio_labels"
    by (simp_all add: probe_gpio_labels_def)
  have sa: "extends s2 ?a" by (rule probe_id_gpio_extends [OF l0]) simp
  have ab: "extends ?a ?b" by (rule probe_id_gpio_extends [OF l1]) simp
  have bc: "extends ?b ?c" by (rule probe_id_gpio_extends [OF l2]) simp
  have cf: "extends ?c ?f" by (rule probe_devices_extends) simp
  have m0: "set (new_calls s2 ?a) \<subseteq> set (new_calls s ?f)"
    by (rule new_calls_mid [OF s2 sa]) (rule extends_trans [OF ab extends_trans [OF bc cf]])
  have m1: "set (new_calls ?a ?b) \<subseteq> set (new_calls s ?f)"
    by (rule new_calls_mid [OF extends_trans [OF s2 sa] ab]) (rule extends_trans [OF bc cf])
  have m2: "set (new_calls ?b ?c) \<subseteq> set (new_calls s ?f)"
    by (rule new_calls_mid [OF extends_trans [OF s2 extends_trans [OF sa ab]] bc]) (rule cf)
  from assms(4) have "l = ''fpc,gpio_id0'' \<or> l = ''fpc,gpio_id1'' \<or> l = ''fpc,gpio_id2''"
    by (simp add: probe_id_labels_def)
  then show ?thesis
  proof (elim disjE)
    assume "l = ''fpc,gpio_id0''"
    with probe_id_gpio_lookup [of l s2 p "\<lambda>g d. d\<lparr>id0_gpio := g\<rparr>" id0_gpio] m0
    show ?thesis unfolding f by blast
  next
    assume "l = ''fpc,gpio_id1''"
    with probe_id_gpio_lookup [of l ?a p "\<lambda>g d. d\<lparr>id1_gpio := g\<rparr>" id1_gpio] m1
    show ?thesis unfolding f by blast
  next
    assume "l = ''fpc,gpio_id2''"
    with probe_id_gpio_lookup [of l ?b p "\<lambda>g d. d\<lparr>id2_gpio := g\<rparr>" id2_gpio] m2
    show ?thesis unfolding f by blast
  qed
qed

text \<open>
  C5, as the code has it. \<open>ONEPLUS_EDIT\<close> is defined, so the pin-control branch of
  probe is not compiled: no operation of the module makes a pin-control call, and after
  a probe that got its memory the three pin-control fields are NULL. In its place a probe
  that succeeds has looked up the properties of the three identification lines and has
  requested each of them that the device tree provides. The routines are in the file all
  the same: where the platform provides the handle and both states,
  \<open>fpc1020_pinctrl_init\<close> followed by \<open>fpc1020_pinctrl_select\<close> would get the
  handle, look up \<open>pmx_fp_active\<close> and \<open>pmx_fp_suspend\<close> and select the active state.
\<close>

theorem pinctrl_compiled_out:
  "ONEPLUS_EDIT \<and>
   list_all (\<lambda>c. \<not> pinctrl_call c) (new_calls s (run_ops k p xs s)) \<and>
   (kzalloc_ok p \<longrightarrow>
      (let d = fpc1020 (snd (fpc1020_probe k p s)) in
         ts_pinctrl d = NULL \<and> gpio_state_active d = NULL \<and> gpio_state_suspend d = NULL)) \<and>
   (fst (fpc1020_probe k p s) = 0 \<and> ENOMEM k \<noteq> 0 \<and> EINVAL k \<noteq> 0 \<longrightarrow>
      list_all
        (\<lambda>l. Of_get_named_gpio l \<in> set (new_calls s (snd (fpc1020_probe k p s))) \<and>
             (0 \<le> of_get_named_gpio p l \<longrightarrow>
                Devm_gpio_request (of_get_named_gpio p l) l
                  \<in> set (new_calls s (snd (fpc1020_probe k p s)))))
        probe_id_labels) \<and>
   (\<not> IS_ERR_OR_NULL k (devm_pinctrl_get p) \<and>
    \<not> IS_ERR_OR_NULL k (pinctrl_lookup_state p ''pmx_fp_active'') \<and>
    \<not> IS_ERR_OR_NULL k (pinctrl_lookup_state p ''pmx_fp_suspend'') \<longrightarrow>
      fst (fpc1020_pinctrl_init k p s) = 0 \<and>
      new_calls s (snd (fpc1020_pinctrl_select k p True (snd (fpc1020_pinctrl_init k p s)))) =
        [Devm_pinctrl_get, Pinctrl_lookup_state ''pmx_fp_active'',
         Pinctrl_lookup_state ''pmx_fp_suspend'',
         Pinctrl_select_state (pinctrl_lookup_state p ''pmx_fp_active'')])"
proof (intro conjI impI)
  show "ONEPLUS_EDIT" by (simp add: ONEPLUS_EDIT_def)
  show "list_all (\<lambda>c. \<not> pinctrl_call c) (new_calls s (run_ops k p xs s))"
    using new_calls_run_ops by (rule list_all_weaken) (rule driver_call_pinctrl)
next
  assume "kzalloc_ok p"
  then have "unused_fields (fpc1020 (snd (fpc1020_probe k p s))) = unused_fields kzalloc_data"
    by (simp add: fpc1020_probe_unused)
  from pinctrl_unused [OF this]
  show "let d = fpc1020 (snd (fpc1020_probe k p s)) in
         ts_pinctrl d = NULL \<and> gpio_state_active d = NULL \<and> gpio_state_suspend d = NULL"
    by (simp add: kzalloc_data_def)
next
  assume "fst (fpc1020_probe k p s) = 0 \<and> ENOMEM k \<noteq> 0 \<and> EINVAL k \<noteq> 0"
  then show "list_all
        (\<lambda>l. Of_get_named_gpio l \<in> set (new_calls s (snd (fpc1020_probe k p s))) \<and>
             (0 \<le> of_get_named_gpio p l \<longrightarrow>
                Devm_gpio_request (of_get_named_gpio p l) l
                  \<in> set (new_calls s (snd (fpc1020_probe k p s)))))
        probe_id_labels"
    unfolding list_all_iff using probe_looks_up_ids [of k p s] by blast
next
  assume a: "\<not> IS_ERR_OR_NULL k (devm_pinctrl_get p) \<and>
    \<not> IS_ERR_OR_NULL k (pinctrl_lookup_state p ''pmx_fp_active'') \<and>
    \<not> IS_ERR_OR_NULL k (pinctrl_lookup_state p ''pmx_fp_suspend'')"
  then show "fst (fpc1020_pinctrl_init k p s) = 0"
    by (simp add: fpc1020_pinctrl_init_def Let_def)
  from a show "new_calls s (snd (fpc1020_pinctrl_select k p True
        (snd (fpc1020_pinctrl_init k p s)))) =
        [Devm_pinctrl_get, Pinctrl_lookup_state ''pmx_fp_active'',
         Pinctrl_lookup_state ''pmx_fp_suspend'',
         Pinctrl_select_state (pinctrl_lookup_state p ''pmx_fp_active'')]"
    by (simp add: fpc1020_pinctrl_init_def fpc1020_pinctrl_select_def Let_def new_calls_def)
qed

theorem pinctrl_compiled_out_witness:
  "kzalloc_ok (board 1 0 0) \<and>
   fst (fpc1020_probe linux_hdr (board 1 0 0) boot) = 0 \<and>
   ts_pinctrl (fpc1020 (snd (fpc1020_probe linux_hdr (board 1 0 0) boot))) = NULL \<and>
   list_all (\<lambda>c. \<not> pinctrl_call c)
     (new_calls boot (run_ops linux_hdr (board 1 0 0) [Probe] boot)) \<and>
   Of_get_named_gpio ''fpc,gpio_id1''
     \<in> set (new_calls boot (snd (fpc1020_probe linux_hdr (board 1 0 0) boot))) \<and>
   Devm_gpio_request 41 ''fpc,gpio_id1''
     \<in> set (new_calls boot (snd (fpc1020_probe linux_hdr (board 1 0 0) boot))) \<and>
   \<not> IS_ERR_OR_NULL linux_hdr (devm_pinctrl_get (board 1 0 0)) \<and>
   new_calls boot (snd (fpc1020_pinctrl_select linux_hdr (board 1 0 0) True
       (snd (fpc1020_pinctrl_init linux_hdr (board 1 0 0) boot)))) =
     [Devm_pinctrl_get, Pinctrl_lookup_state ''pmx_fp_active'',
      Pinctrl_lookup_state ''pmx_fp_suspend'', Pinctrl_select_state 0x2000]"
proof -
  have ok: "fst (fpc1020_probe linux_hdr (board 1 0 0) boot) = 0"
    by (rule probe_board_ok)
  have e: "ENOMEM linux_hdr \<noteq> 0" "EINVAL linux_hdr \<noteq> 0"
    by (simp_all add: linux_hdr_def)
  have pc: "kzalloc_ok (board 1 0 0)"
    "\<not> IS_ERR_OR_NULL linux_hdr (devm_pinctrl_get (board 1 0 0))"
    "\<not> IS_ERR_OR_NULL linux_hdr (pinctrl_lookup_state (board 1 0 0) ''pmx_fp_active'')"
    "\<not> IS_ERR_OR_NULL linux_hdr (pinctrl_lookup_state (board 1 0 0) ''pmx_fp_suspend'')"
    "pinctrl_lookup_state (board 1 0 0) ''pmx_fp_active'' = 0x2000"
    "of_get_named_gpio (board 1 0 0) ''fpc,gpio_id1'' = 41"
    by (simp_all add: board_def IS_ERR_OR_NULL_def IS_ERR_VALUE_def NULL_def linux_hdr_def)
  from pinctrl_compiled_out [of boot linux_hdr "board 1 0 0" "[Probe]"] ok e pc
  show ?thesis
    by (simp add: Let_def probe_id_labels_def del: run_ops.simps)
qed

text \<open>
  The claim as the specification states it fails: on the example board, which provides
  pin control, probe succeeds without a single pin-control call.
\<close>

theorem pinctrl_executed_counterexample:
  "\<not> IS_ERR_OR_NULL linux_hdr (devm_pinctrl_get (board 1 0 0)) \<and>
   fst (fpc1020_probe linux_hdr (board 1 0 0) boot) = 0 \<and>
   filter pinctrl_call (calls (snd (fpc1020_probe linux_hdr (board 1 0 0) boot))) = [] \<and>
   ts_pinctrl (fpc1020 (snd (fpc1020_probe linux_hdr (board 1 0 0) boot))) = NULL"
  by (simp add: probe_board_ok probe_board_calls probe_board_data boot_def kzalloc_data_def)
     (simp add: board_def IS_ERR_OR_NULL_def IS_ERR_VALUE_def NULL_def linux_hdr_def)

text \<open>
  C6. Whatever operations of the module run (probe, the interrupt handler, the
  framebuffer callback, the work item, every sysfs handler), in whatever order and on
  whatever platform, none of the calls they make is an SPI transfer or drives a level on
  a GPIO line towards the sensor.
\<close>

theorem no_spi_or_data_plane_call:
  "list_all (\<lambda>c. \<not> data_plane_call c) (new_calls s (run_ops k p xs s))"
  using new_calls_run_ops by (rule list_all_weaken) (rule driver_call_data_plane)

theorem no_spi_or_data_plane_call_witness:
  "new_calls boot (run_ops linux_hdr (board 1 0 0) [Fb_notify 16 4, Irq_get] boot) =
     [Queue_work, Gpio_get_value 0] \<and>
   list_all (\<lambda>c. \<not> data_plane_call c)
     (new_calls boot (run_ops linux_hdr (board 1 0 0) [Fb_notify 16 4, Irq_get] boot))"
proof -
  have "new_calls boot (run_ops linux_hdr (board 1 0 0) [Fb_notify 16 4, Irq_get] boot) =
     [Queue_work, Gpio_get_value 0]"
    by (simp add: new_calls_def fb_notifier_callback_def queue_work_def irq_get_def Let_def
        linux_hdr_def boot_def kzalloc_data_def)
  with no_spi_or_data_plane_call [of boot linux_hdr "board 1 0 0" "[Fb_notify 16 4, Irq_get]"]
  show ?thesis by simp
qed

end
